theory Spec2Isabelle
  imports Main "HOL-Library.Word"
begin

section \<open>The ArtGallery contract\<close>

text \<open>
  A shallow embedding of the Solidity contract \<open>ArtGallery\<close> (compiled with
  \<open>pragma solidity ^0.8.20\<close>). A \<open>uint256\<close> is a 256-bit word and an \<open>address\<close> a
  160-bit word. A call that reverts is the value \<open>Inl\<close> of a sum type; the
  storage it would have written is discarded, as the EVM does. A Solidity
  \<open>mapping\<close> is a total function whose default value is the zero value of its
  range.
\<close>

type_synonym uint256 = "256 word"
type_synonym address = "160 word"

datatype error = Revert string | Panic | TransferFailed

subsection \<open>Checked arithmetic of Solidity 0.8\<close>

text \<open>
  Since Solidity 0.8 the operators \<open>+\<close>, \<open>-\<close> and \<open>*\<close> on \<open>uint256\<close> revert with a
  panic when the exact result does not fit; \<open>/\<close> truncates.
\<close>

definition checked_add :: "uint256 \<Rightarrow> uint256 \<Rightarrow> error + uint256" where
  "checked_add a b = (if unat a + unat b < 2 ^ 256 then Inr (a + b) else Inl Panic)"

definition checked_sub :: "uint256 \<Rightarrow> uint256 \<Rightarrow> error + uint256" where
  "checked_sub a b = (if unat b \<le> unat a then Inr (a - b) else Inl Panic)"

definition checked_mul :: "uint256 \<Rightarrow> uint256 \<Rightarrow> error + uint256" where
  "checked_mul a b = (if unat a * unat b < 2 ^ 256 then Inr (a * b) else Inl Panic)"

subsection \<open>Structs, events and storage\<close>

record Review =
  reviewer :: address
  comment :: string
  rating :: uint256
  timestamp :: uint256

record Gallery =
  name :: string
  curator :: address
  artworkIds :: "uint256 list"
  isActive :: bool
  description :: string
  galleryCreatedAt :: uint256

record Artwork =
  title :: string
  artist :: address
  price :: uint256
  forSale :: bool
  totalRatings :: uint256
  ratingSum :: uint256
  galleryId :: string
  royaltyPercentage :: uint256
  createdAt :: uint256

datatype event =
    ArtworkCreated uint256 string address uint256
  | ArtworkSold uint256 address address uint256
  | ReviewAdded uint256 address string uint256
  | GalleryCreated string string address
  | PriceUpdated uint256 uint256
  | RoyaltyPaid uint256 address uint256

text \<open>
  The order in which a call acts on the outside world and on the two storage
  cells a purchase writes is kept in a trace: the events of this contract, the
  outward payments (\<open>payable(a).transfer(v)\<close>), the writes of a token's owner
  (in the inherited \<open>_mint\<close> and \<open>_transfer\<close>) and the writes of an artwork's
  \<open>forSale\<close> flag.
\<close>

datatype effect =
    Emitted event
  | Sent address uint256
  | OwnerSet uint256 address
  | ForSaleSet uint256 bool

text \<open>
  The storage of the contract. \<open>owners\<close>, \<open>balances\<close> and \<open>tokenURIs\<close> are the
  inherited ERC721 storage (\<open>_owners\<close>, \<open>_balances\<close>, \<open>_tokenURIs\<close>), \<open>owner\<close> is
  the \<open>_owner\<close> of \<open>Ownable\<close>, \<open>entered\<close> says that the \<open>_status\<close> of
  \<open>ReentrancyGuard\<close> is \<open>_ENTERED\<close>, and \<open>funds\<close> is the ether balance of the
  contract (bounded by the ether supply, so a natural number that never wraps).
\<close>

record state =
  tokenIds :: uint256
  galleryIds :: uint256
  platformFee :: uint256
  artworks :: "uint256 \<Rightarrow> Artwork"
  galleries :: "string \<Rightarrow> Gallery"
  reviews :: "uint256 \<Rightarrow> Review list"
  hasRated :: "uint256 \<Rightarrow> address \<Rightarrow> bool"
  userArtworks :: "address \<Rightarrow> uint256 list"
  userGalleries :: "address \<Rightarrow> string list"
  owners :: "uint256 \<Rightarrow> address"
  balances :: "address \<Rightarrow> uint256"
  tokenURIs :: "uint256 \<Rightarrow> string"
  owner :: address
  entered :: bool
  funds :: nat
  trace :: "effect list"

definition zero_Artwork :: Artwork where
  "zero_Artwork = \<lparr>title = [], artist = 0, price = 0, forSale = False, totalRatings = 0,
     ratingSum = 0, galleryId = [], royaltyPercentage = 0, createdAt = 0\<rparr>"

definition zero_Gallery :: Gallery where
  "zero_Gallery = \<lparr>name = [], curator = 0, artworkIds = [], isActive = False,
     description = [], galleryCreatedAt = 0\<rparr>"

text \<open>The state after deployment by \<open>deployer\<close>: \<open>platformFee = 25\<close>, everything else zero.\<close>

definition constructor :: "address \<Rightarrow> state" where
  "constructor deployer =
     \<lparr>tokenIds = 0, galleryIds = 0, platformFee = 25,
      artworks = (\<lambda>_. zero_Artwork), galleries = (\<lambda>_. zero_Gallery),
      reviews = (\<lambda>_. []), hasRated = (\<lambda>_ _. False),
      userArtworks = (\<lambda>_. []), userGalleries = (\<lambda>_. []),
      owners = (\<lambda>_. 0), balances = (\<lambda>_. 0), tokenURIs = (\<lambda>_. []),
      owner = deployer, entered = False, funds = 0, trace = []\<rparr>"

subsection \<open>Inherited library functions\<close>

text \<open>
  Modelled from the spec: the functions of this subsection, which the contract
  inherits from \<open>ERC721URIStorage\<close>, \<open>ReentrancyGuard\<close> and \<open>Ownable\<close> or uses
  from \<open>Counters\<close>. They belong to the imported OpenZeppelin 4 packages and
  are not among the sources. The specification says what they are for: an id
  is known once it has been allocated (4.3, step 1); a creation allocates the
  next sequential id and makes the caller its owner (4.2); a purchase makes the
  caller the owner (4.3, step 7); an outward transfer reports success or
  failure (6); a guarded call is not entered again while it runs (9). The
  checks they make, and that the counter is a \<open>uint256\<close> incremented without an
  overflow check, are those of the library. The approvals of ERC721 and the
  events of the library itself are left out. The source names \<open>_exists\<close>,
  \<open>_mint\<close>, \<open>_setTokenURI\<close> and \<open>_transfer\<close> lose their underscore: they are
  \<open>token_exists\<close>, \<open>mint\<close>, \<open>setTokenURI\<close> and \<open>transfer_token\<close>.
\<close>

definition token_exists :: "state \<Rightarrow> uint256 \<Rightarrow> bool" where
  "token_exists s tokenId = (owners s tokenId \<noteq> 0)"

definition ownerOf :: "state \<Rightarrow> uint256 \<Rightarrow> error + address" where
  "ownerOf s tokenId =
     (if owners s tokenId = 0 then Inl (Revert ''ERC721: invalid token ID'')
      else Inr (owners s tokenId))"

definition emit :: "event \<Rightarrow> state \<Rightarrow> state" where
  "emit e s = s\<lparr>trace := trace s @ [Emitted e]\<rparr>"

text \<open>\<open>Counters.increment\<close> adds one inside an \<open>unchecked\<close> block: it wraps.\<close>

definition increment :: "uint256 \<Rightarrow> uint256" where
  "increment v = v + 1"

definition mint :: "address \<Rightarrow> uint256 \<Rightarrow> state \<Rightarrow> error + state" where
  "mint to tokenId s =
     (if to = 0 then Inl (Revert ''ERC721: mint to the zero address'')
      else if token_exists s tokenId then Inl (Revert ''ERC721: token already minted'')
      else Inr (s\<lparr>balances := (balances s)(to := balances s to + 1),
                  owners := (owners s)(tokenId := to),
                  trace := trace s @ [OwnerSet tokenId to]\<rparr>))"

definition setTokenURI :: "uint256 \<Rightarrow> string \<Rightarrow> state \<Rightarrow> error + state" where
  "setTokenURI tokenId uri s =
     (if \<not> token_exists s tokenId
      then Inl (Revert ''ERC721URIStorage: URI set of nonexistent token'')
      else Inr (s\<lparr>tokenURIs := (tokenURIs s)(tokenId := uri)\<rparr>))"

definition transfer_token :: "address \<Rightarrow> address \<Rightarrow> uint256 \<Rightarrow> state \<Rightarrow> error + state" where
  "transfer_token from to tokenId s =
     (case ownerOf s tokenId of
        Inl e \<Rightarrow> Inl e
      | Inr holder \<Rightarrow>
          if holder \<noteq> from then Inl (Revert ''ERC721: transfer from incorrect owner'')
          else if to = 0 then Inl (Revert ''ERC721: transfer to the zero address'')
          else
            let b1 = (balances s)(from := balances s from - 1);
                b2 = b1(to := b1 to + 1)
            in Inr (s\<lparr>balances := b2,
                      owners := (owners s)(tokenId := to),
                      trace := trace s @ [OwnerSet tokenId to]\<rparr>))"

text \<open>
  \<open>payable(to).transfer(amount)\<close>: the payment reverts the call when the contract
  holds less than \<open>amount\<close> or when the recipient does not accept it. Which
  addresses accept a payment is a fact of the outside world, the parameter
  \<open>accepts\<close>.
\<close>

definition transfer :: "(address \<Rightarrow> bool) \<Rightarrow> address \<Rightarrow> uint256 \<Rightarrow> state \<Rightarrow> error + state" where
  "transfer accepts to amount s =
     (if funds s < unat amount \<or> \<not> accepts to then Inl TransferFailed
      else Inr (s\<lparr>funds := funds s - unat amount, trace := trace s @ [Sent to amount]\<rparr>))"

text \<open>
  The modifier \<open>nonReentrant\<close>: it refuses a call made while another guarded call
  is running, holds the guard during the body and releases it afterwards.
\<close>

definition nonReentrant :: "(state \<Rightarrow> error + state \<times> 'a) \<Rightarrow> state \<Rightarrow> error + state \<times> 'a" where
  "nonReentrant body s =
     (if entered s then Inl (Revert ''ReentrancyGuard: reentrant call'')
      else case body (s\<lparr>entered := True\<rparr>) of
             Inl e \<Rightarrow> Inl e
           | Inr (s', r) \<Rightarrow> Inr (s'\<lparr>entered := False\<rparr>, r))"

subsection \<open>The functions of the contract\<close>

definition createArtwork_body ::
  "address \<Rightarrow> uint256 \<Rightarrow> string \<Rightarrow> string \<Rightarrow> uint256 \<Rightarrow> string \<Rightarrow> uint256 \<Rightarrow> state
     \<Rightarrow> error + state \<times> uint256" where
  "createArtwork_body sender now title' tokenURI price' galleryId' royaltyPercentage' s =
     (if \<not> length title' > 0 then Inl (Revert ''Title cannot be empty'')
      else if \<not> price' > 0 then Inl (Revert ''Price must be greater than 0'')
      else if \<not> isActive (galleries s galleryId') then Inl (Revert ''Gallery does not exist'')
      else if \<not> royaltyPercentage' \<le> 100
        then Inl (Revert ''Royalty percentage cannot exceed 100'')
      else
        let s1 = s\<lparr>tokenIds := increment (tokenIds s)\<rparr>;
            newTokenId = tokenIds s1
        in case mint sender newTokenId s1 of
             Inl e \<Rightarrow> Inl e
           | Inr s2 \<Rightarrow>
        (case setTokenURI newTokenId tokenURI s2 of
             Inl e \<Rightarrow> Inl e
           | Inr s3 \<Rightarrow>
        let s4 = s3\<lparr>artworks := (artworks s3)(newTokenId :=
                      \<lparr>title = title', artist = sender, price = price', forSale = True,
                       totalRatings = 0, ratingSum = 0, galleryId = galleryId',
                       royaltyPercentage = royaltyPercentage', createdAt = now\<rparr>),
                    trace := trace s3 @ [ForSaleSet newTokenId True]\<rparr>;
            g = galleries s4 galleryId';
            s5 = s4\<lparr>galleries := (galleries s4)(galleryId' :=
                      g\<lparr>artworkIds := artworkIds g @ [newTokenId]\<rparr>)\<rparr>;
            s6 = s5\<lparr>userArtworks := (userArtworks s5)(sender :=
                      userArtworks s5 sender @ [newTokenId])\<rparr>
        in Inr (emit (ArtworkCreated newTokenId title' sender price') s6, newTokenId)))"

definition createArtwork ::
  "address \<Rightarrow> uint256 \<Rightarrow> string \<Rightarrow> string \<Rightarrow> uint256 \<Rightarrow> string \<Rightarrow> uint256 \<Rightarrow> state
     \<Rightarrow> error + state \<times> uint256" where
  "createArtwork sender now title' tokenURI price' galleryId' royaltyPercentage' =
     nonReentrant
       (createArtwork_body sender now title' tokenURI price' galleryId' royaltyPercentage')"

text \<open>
  \<open>purchaseArtwork\<close> is payable: the value sent with the call is in the
  contract's balance before the guard and the body run. The statements follow
  the source line by line.
\<close>

definition purchaseArtwork_body ::
  "(address \<Rightarrow> bool) \<Rightarrow> address \<Rightarrow> uint256 \<Rightarrow> uint256 \<Rightarrow> state \<Rightarrow> error + state \<times> unit" where
  "purchaseArtwork_body accepts sender msg_value tokenId s =
     (if \<not> token_exists s tokenId then Inl (Revert ''Artwork does not exist'')
      else if \<not> forSale (artworks s tokenId) then Inl (Revert ''Artwork is not for sale'')
      else if \<not> msg_value \<ge> price (artworks s tokenId) then Inl (Revert ''Insufficient payment'')
      else case ownerOf s tokenId of
             Inl e \<Rightarrow> Inl e
           | Inr seller \<Rightarrow>
        (case checked_mul msg_value (platformFee s) of
             Inl e \<Rightarrow> Inl e
           | Inr feeProduct \<Rightarrow>
        let platformFeeAmount = feeProduct div 1000 in
        (case (if seller \<noteq> artist (artworks s tokenId)
               then (case checked_mul msg_value (royaltyPercentage (artworks s tokenId)) of
                       Inl e \<Rightarrow> Inl e
                     | Inr royaltyProduct \<Rightarrow>
                         let royaltyAmount = royaltyProduct div 100 in
                         (case transfer accepts (artist (artworks s tokenId)) royaltyAmount s of
                            Inl e \<Rightarrow> Inl e
                          | Inr s1 \<Rightarrow>
                              Inr (emit (RoyaltyPaid tokenId (artist (artworks s tokenId))
                                           royaltyAmount) s1,
                                   royaltyAmount)))
               else Inr (s, 0)) of
             Inl e \<Rightarrow> Inl e
           | Inr (s2, royaltyAmount) \<Rightarrow>
        (case transfer_token seller sender tokenId s2 of
             Inl e \<Rightarrow> Inl e
           | Inr s3 \<Rightarrow>
        (case transfer accepts (owner s3) platformFeeAmount s3 of
             Inl e \<Rightarrow> Inl e
           | Inr s4 \<Rightarrow>
        (case checked_sub msg_value platformFeeAmount of
             Inl e \<Rightarrow> Inl e
           | Inr afterFee \<Rightarrow>
        (case checked_sub afterFee royaltyAmount of
             Inl e \<Rightarrow> Inl e
           | Inr proceeds \<Rightarrow>
        (case transfer accepts seller proceeds s4 of
             Inl e \<Rightarrow> Inl e
           | Inr s5 \<Rightarrow>
        let s6 = s5\<lparr>artworks := (artworks s5)(tokenId :=
                      (artworks s5 tokenId)\<lparr>forSale := False\<rparr>),
                    trace := trace s5 @ [ForSaleSet tokenId False]\<rparr>
        in Inr (emit (ArtworkSold tokenId seller sender msg_value) s6, ())))))))))"

definition purchaseArtwork ::
  "(address \<Rightarrow> bool) \<Rightarrow> address \<Rightarrow> uint256 \<Rightarrow> uint256 \<Rightarrow> state \<Rightarrow> error + state \<times> unit" where
  "purchaseArtwork accepts sender msg_value tokenId s =
     nonReentrant (purchaseArtwork_body accepts sender msg_value tokenId)
       (s\<lparr>funds := funds s + unat msg_value\<rparr>)"

definition createGallery ::
  "address \<Rightarrow> uint256 \<Rightarrow> string \<Rightarrow> string \<Rightarrow> string \<Rightarrow> state \<Rightarrow> error + state \<times> unit" where
  "createGallery sender now galleryId' name' description' s =
     (if \<not> length galleryId' > 0 then Inl (Revert ''Gallery ID cannot be empty'')
      else if \<not> length name' > 0 then Inl (Revert ''Gallery name cannot be empty'')
      else if isActive (galleries s galleryId') then Inl (Revert ''Gallery ID already exists'')
      else
        let s1 = s\<lparr>galleries := (galleries s)(galleryId' :=
                      \<lparr>name = name', curator = sender, artworkIds = [], isActive = True,
                       description = description', galleryCreatedAt = now\<rparr>)\<rparr>;
            s2 = s1\<lparr>userGalleries := (userGalleries s1)(sender :=
                      userGalleries s1 sender @ [galleryId'])\<rparr>
        in Inr (emit (GalleryCreated galleryId' name' sender) s2, ()))"

definition addReview ::
  "address \<Rightarrow> uint256 \<Rightarrow> uint256 \<Rightarrow> string \<Rightarrow> uint256 \<Rightarrow> state \<Rightarrow> error + state \<times> unit" where
  "addReview sender now tokenId comment' rating' s =
     (if \<not> token_exists s tokenId then Inl (Revert ''Artwork does not exist'')
      else if \<not> (rating' \<ge> 1 \<and> rating' \<le> 5)
        then Inl (Revert ''Rating must be between 1 and 5'')
      else if hasRated s tokenId sender
        then Inl (Revert ''User has already rated this artwork'')
      else
        let s1 = s\<lparr>reviews := (reviews s)(tokenId := reviews s tokenId @
                      [\<lparr>reviewer = sender, comment = comment', rating = rating',
                        timestamp = now\<rparr>])\<rparr>
        in case checked_add (totalRatings (artworks s1 tokenId)) 1 of
             Inl e \<Rightarrow> Inl e
           | Inr n \<Rightarrow>
        let s2 = s1\<lparr>artworks := (artworks s1)(tokenId :=
                      (artworks s1 tokenId)\<lparr>totalRatings := n\<rparr>)\<rparr>
        in (case checked_add (ratingSum (artworks s2 tokenId)) rating' of
             Inl e \<Rightarrow> Inl e
           | Inr m \<Rightarrow>
        let s3 = s2\<lparr>artworks := (artworks s2)(tokenId :=
                      (artworks s2 tokenId)\<lparr>ratingSum := m\<rparr>)\<rparr>;
            s4 = s3\<lparr>hasRated := (hasRated s3)(tokenId :=
                      (hasRated s3 tokenId)(sender := True))\<rparr>
        in Inr (emit (ReviewAdded tokenId sender comment' rating') s4, ())))"

definition getArtwork ::
  "uint256 \<Rightarrow> state \<Rightarrow> error + string \<times> address \<times> uint256 \<times> bool \<times> uint256 \<times> string \<times> uint256" where
  "getArtwork tokenId s =
     (if \<not> token_exists s tokenId then Inl (Revert ''Artwork does not exist'')
      else
        let artwork = artworks s tokenId
        in Inr (title artwork, artist artwork, price artwork, forSale artwork,
                (if totalRatings artwork > 0 then ratingSum artwork div totalRatings artwork
                 else 0),
                galleryId artwork, royaltyPercentage artwork))"

definition getGalleryArtworks :: "string \<Rightarrow> state \<Rightarrow> error + uint256 list" where
  "getGalleryArtworks galleryId' s =
     (if \<not> isActive (galleries s galleryId') then Inl (Revert ''Gallery does not exist'')
      else Inr (artworkIds (galleries s galleryId')))"

definition getUserArtworks :: "address \<Rightarrow> state \<Rightarrow> uint256 list" where
  "getUserArtworks user s = userArtworks s user"

definition getUserGalleries :: "address \<Rightarrow> state \<Rightarrow> string list" where
  "getUserGalleries user s = userGalleries s user"

definition updatePlatformFee :: "address \<Rightarrow> uint256 \<Rightarrow> state \<Rightarrow> error + state \<times> unit" where
  "updatePlatformFee sender newFee s =
     (if owner s \<noteq> sender then Inl (Revert ''Ownable: caller is not the owner'')
      else if \<not> newFee \<le> 100 then Inl (Revert ''Fee cannot exceed 10%'')
      else Inr (s\<lparr>platformFee := newFee\<rparr>, ()))"

subsection \<open>Transactions\<close>

text \<open>
  The state-changing functions that the contract itself declares, as calls. A
  transaction is a call with its sender and block timestamp; \<open>execute\<close> commits
  the new storage when the call returns and keeps the old one when it reverts.
\<close>

datatype call =
    CreateArtwork string string uint256 string uint256
  | PurchaseArtwork uint256 uint256
  | CreateGallery string string string
  | AddReview uint256 string uint256
  | UpdatePlatformFee uint256

fun step :: "(address \<Rightarrow> bool) \<Rightarrow> address \<Rightarrow> uint256 \<Rightarrow> call \<Rightarrow> state \<Rightarrow> error + state" where
  "step accepts sender now (CreateArtwork t u p g r) s =
     map_sum id fst (createArtwork sender now t u p g r s)"
| "step accepts sender now (PurchaseArtwork tokenId msg_value) s =
     map_sum id fst (purchaseArtwork accepts sender msg_value tokenId s)"
| "step accepts sender now (CreateGallery g n d) s =
     map_sum id fst (createGallery sender now g n d s)"
| "step accepts sender now (AddReview tokenId c r) s =
     map_sum id fst (addReview sender now tokenId c r s)"
| "step accepts sender now (UpdatePlatformFee newFee) s =
     map_sum id fst (updatePlatformFee sender newFee s)"

type_synonym tx = "address \<times> uint256 \<times> call"

fun execute :: "(address \<Rightarrow> bool) \<Rightarrow> tx \<Rightarrow> state \<Rightarrow> state" where
  "execute accepts (sender, now, c) s =
     (case step accepts sender now c s of Inl e \<Rightarrow> s | Inr s' \<Rightarrow> s')"

fun run :: "(address \<Rightarrow> bool) \<Rightarrow> tx list \<Rightarrow> state \<Rightarrow> state" where
  "run accepts [] s = s"
| "run accepts (t # ts) s = run accepts ts (execute accepts t s)"

text \<open>The token ids that the successful \<open>createArtwork\<close> calls of a run return, in order.\<close>

fun issued :: "(address \<Rightarrow> bool) \<Rightarrow> tx list \<Rightarrow> state \<Rightarrow> uint256 list" where
  "issued accepts [] s = []"
| "issued accepts ((sender, now, CreateArtwork t u p g r) # ts) s =
     (case createArtwork sender now t u p g r s of
        Inl e \<Rightarrow> issued accepts ts s
      | Inr (s', newTokenId) \<Rightarrow> newTokenId # issued accepts ts s')"
| "issued accepts (t # ts) s = issued accepts ts (execute accepts t s)"

subsection \<open>Reading a trace\<close>

text \<open>The effects that a call added to the trace, and the payments among them.\<close>

definition effects_of :: "state \<Rightarrow> state \<Rightarrow> effect list" where
  "effects_of s s' = drop (length (trace s)) (trace s')"

fun payments :: "effect list \<Rightarrow> (address \<times> uint256) list" where
  "payments [] = []"
| "payments (Sent to amount # es) = (to, amount) # payments es"
| "payments (e # es) = payments es"

fun is_payment :: "effect \<Rightarrow> bool" where
  "is_payment (Sent _ _) = True"
| "is_payment _ = False"

fun is_write :: "effect \<Rightarrow> bool" where
  "is_write (OwnerSet _ _) = True"
| "is_write (ForSaleSet _ _) = True"
| "is_write _ = False"

fun is_sold :: "effect \<Rightarrow> bool" where
  "is_sold (Emitted (ArtworkSold _ _ _ _)) = True"
| "is_sold _ = False"

fun is_royalty_event :: "effect \<Rightarrow> bool" where
  "is_royalty_event (Emitted (RoyaltyPaid _ _ _)) = True"
| "is_royalty_event _ = False"

fun is_price_update :: "effect \<Rightarrow> bool" where
  "is_price_update (Emitted (PriceUpdated _ _)) = True"
| "is_price_update _ = False"

text \<open>
  The order of a purchase in the words of the specification (section 4.3, steps
  7 to 10), not taken from the source: the storage writes come first, then the
  sale event, then the payments. Two effects are out of order when a payment
  comes before a write or before the sale event, or the sale event before a
  write.
\<close>

definition out_of_order :: "effect \<Rightarrow> effect \<Rightarrow> bool" where
  "out_of_order earlier later =
     (is_payment earlier \<and> (is_write later \<or> is_sold later) \<or> is_sold earlier \<and> is_write later)"

fun spec_mutate_before_transfer :: "effect list \<Rightarrow> bool" where
  "spec_mutate_before_transfer [] = True"
| "spec_mutate_before_transfer (e # es) =
     (list_all (\<lambda>x. \<not> out_of_order e x) es \<and> spec_mutate_before_transfer es)"

subsection \<open>An example state\<close>

text \<open>
  One gallery \<open>g1\<close> of the administrator (address 1) and one artwork, token 1,
  created by the artist (address 2), listed at \<open>price'\<close> and held by \<open>holder\<close>.
  With \<open>holder = 2\<close> it is the state after \<open>createGallery\<close> and \<open>createArtwork\<close>
  (the first two transactions of \<open>demo_txs\<close> below); with another holder the
  artist has passed the token on by the inherited \<open>transferFrom\<close> of ERC721,
  which leaves the listing as it is, so that the next purchase is a secondary
  sale.
\<close>

definition demo :: "address \<Rightarrow> uint256 \<Rightarrow> uint256 \<Rightarrow> state" where
  "demo holder price' royaltyPercentage' =
     \<lparr>tokenIds = 1, galleryIds = 0, platformFee = 25,
      artworks = (\<lambda>_. zero_Artwork)(1 :=
         \<lparr>title = ''A'', artist = 2, price = price', forSale = True, totalRatings = 0,
          ratingSum = 0, galleryId = ''g1'', royaltyPercentage = royaltyPercentage',
          createdAt = 0\<rparr>),
      galleries = (\<lambda>_. zero_Gallery)(''g1'' :=
         \<lparr>name = ''G'', curator = 1, artworkIds = [1], isActive = True,
          description = [], galleryCreatedAt = 0\<rparr>),
      reviews = (\<lambda>_. []), hasRated = (\<lambda>_ _. False),
      userArtworks = (\<lambda>_. [])(2 := [1]), userGalleries = (\<lambda>_. [])(1 := [''g1'']),
      owners = (\<lambda>_. 0)(1 := holder), balances = (\<lambda>_. 0)(holder := 1),
      tokenURIs = (\<lambda>_. [])(1 := ''ipfs''),
      owner = 1, entered = False, funds = 0,
      trace = [Emitted (GalleryCreated ''g1'' ''G'' 1), OwnerSet 1 2, ForSaleSet 1 True,
               Emitted (ArtworkCreated 1 ''A'' 2 price')] @
              (if holder = 2 then [] else [OwnerSet 1 holder])\<rparr>"

text \<open>The example after the artist has sold token 1 to address 3 for 1000 wei.\<close>

definition demo_sold :: state where
  "demo_sold = (demo 2 1000 10)
     \<lparr>artworks := (artworks (demo 2 1000 10))(1 :=
        (artworks (demo 2 1000 10) 1)\<lparr>forSale := False\<rparr>),
      owners := (owners (demo 2 1000 10))(1 := 3),
      balances := (balances (demo 2 1000 10))(2 := 0, 3 := 1),
      trace := trace (demo 2 1000 10) @
                [OwnerSet 1 3, Sent 1 25, Sent 2 975, ForSaleSet 1 False,
                 Emitted (ArtworkSold 1 2 3 1000)]\<rparr>"

text \<open>The example after address 3 has rated token 1 with 4, and then address 4 with 2.\<close>

definition demo_rated :: state where
  "demo_rated = (demo 2 1000 10)
     \<lparr>artworks := (artworks (demo 2 1000 10))(1 :=
        (artworks (demo 2 1000 10) 1)\<lparr>totalRatings := 1, ratingSum := 4\<rparr>),
      reviews := (\<lambda>_. [])(1 :=
        [\<lparr>reviewer = 3, comment = ''nice'', rating = 4, timestamp = 0\<rparr>]),
      hasRated := (\<lambda>_ _. False)(1 := (\<lambda>_. False)(3 := True)),
      trace := trace (demo 2 1000 10) @ [Emitted (ReviewAdded 1 3 ''nice'' 4)]\<rparr>"

definition demo_rated_twice :: state where
  "demo_rated_twice = demo_rated
     \<lparr>artworks := (artworks demo_rated)(1 :=
        (artworks demo_rated 1)\<lparr>totalRatings := 2, ratingSum := 6\<rparr>),
      reviews := (\<lambda>_. [])(1 :=
        [\<lparr>reviewer = 3, comment = ''nice'', rating = 4, timestamp = 0\<rparr>,
         \<lparr>reviewer = 4, comment = ''dull'', rating = 2, timestamp = 0\<rparr>]),
      hasRated := (\<lambda>_ _. False)(1 := (\<lambda>_. False)(3 := True, 4 := True)),
      trace := trace demo_rated @ [Emitted (ReviewAdded 1 4 ''dull'' 2)]\<rparr>"

text \<open>
  Four transactions after deployment by address 1: a gallery, an artwork, a
  creation that reverts (its title is empty), and another artwork.
\<close>

definition demo_txs :: "tx list" where
  "demo_txs =
     [(1, 0, CreateGallery ''g1'' ''G'' []),
      (2, 0, CreateArtwork ''A'' ''ipfs'' 1000 ''g1'' 10),
      (2, 0, CreateArtwork [] ''ipfs2'' 1000 ''g1'' 10),
      (3, 0, CreateArtwork ''B'' ''ipfs3'' 5 ''g1'' 0)]"

section \<open>Properties\<close>

subsection \<open>What a successful purchase did\<close>

lemma purchaseArtwork_body_Inr:
  assumes "purchaseArtwork_body accepts sender v tokenId s = Inr (s', u)"
  defines "art \<equiv> artworks s tokenId"
  defines "seller \<equiv> owners s tokenId"
  defines "fee \<equiv> (v * platformFee s) div 1000"
  defines "roy \<equiv> (if seller \<noteq> artist art then (v * royaltyPercentage art) div 100 else 0)"
  shows "token_exists s tokenId \<and> forSale art \<and> price art \<le> v \<and> sender \<noteq> 0
       \<and> unat v * unat (platformFee s) < 2 ^ 256
       \<and> (seller \<noteq> artist art \<longrightarrow> unat v * unat (royaltyPercentage art) < 2 ^ 256)
       \<and> unat fee \<le> unat v \<and> unat roy \<le> unat (v - fee)
       \<and> s' = s\<lparr>artworks := (artworks s)(tokenId := art\<lparr>forSale := False\<rparr>),
                 owners := (owners s)(tokenId := sender),
                 balances := ((balances s)(seller := balances s seller - 1))
                               (sender := ((balances s)(seller := balances s seller - 1)) sender + 1),
                 funds := funds s - unat roy - unat fee - unat (v - fee - roy),
                 trace := trace s @
                   (if seller \<noteq> artist art
                    then [Sent (artist art) roy, Emitted (RoyaltyPaid tokenId (artist art) roy)]
                    else []) @
                   [OwnerSet tokenId sender, Sent (owner s) fee, Sent seller (v - fee - roy),
                    ForSaleSet tokenId False, Emitted (ArtworkSold tokenId seller sender v)]\<rparr>"
  using assms(1)
  unfolding purchaseArtwork_body_def art_def seller_def fee_def roy_def
  by (auto simp: Let_def ownerOf_def token_exists_def checked_mul_def checked_sub_def
        transfer_def transfer_token_def emit_def
        split: if_splits sum.splits prod.splits)

lemma nonReentrant_Inr:
  "nonReentrant body s = Inr (s', r) \<Longrightarrow>
     \<not> entered s \<and> (\<exists>s1. body (s\<lparr>entered := True\<rparr>) = Inr (s1, r) \<and> s' = s1\<lparr>entered := False\<rparr>)"
  by (auto simp: nonReentrant_def split: if_splits sum.splits prod.splits)

lemma purchaseArtwork_Inr:
  assumes "purchaseArtwork accepts sender v tokenId s = Inr (s', u)"
  defines "art \<equiv> artworks s tokenId"
  defines "seller \<equiv> owners s tokenId"
  defines "fee \<equiv> (v * platformFee s) div 1000"
  defines "roy \<equiv> (if seller \<noteq> artist art then (v * royaltyPercentage art) div 100 else 0)"
  shows "\<not> entered s" "token_exists s tokenId" "forSale art" "price art \<le> v" "sender \<noteq> 0"
    "unat v * unat (platformFee s) < 2 ^ 256"
    "seller \<noteq> artist art \<Longrightarrow> unat v * unat (royaltyPercentage art) < 2 ^ 256"
    "unat fee \<le> unat v" "unat roy \<le> unat (v - fee)"
    "trace s' = trace s @
                   (if seller \<noteq> artist art
                    then [Sent (artist art) roy, Emitted (RoyaltyPaid tokenId (artist art) roy)]
                    else []) @
                   [OwnerSet tokenId sender, Sent (owner s) fee, Sent seller (v - fee - roy),
                    ForSaleSet tokenId False, Emitted (ArtworkSold tokenId seller sender v)]"
    "artworks s' = (artworks s)(tokenId := art\<lparr>forSale := False\<rparr>)"
    "owners s' = (owners s)(tokenId := sender)"
    "userArtworks s' = userArtworks s" "hasRated s' = hasRated s" "tokenIds s' = tokenIds s"
    "platformFee s' = platformFee s" "galleries s' = galleries s" "reviews s' = reviews s"
    "entered s' = False" "owner s' = owner s"
proof -
  from assms(1) obtain s1 where g: "\<not> entered s"
    and b: "purchaseArtwork_body accepts sender v tokenId
              (s\<lparr>funds := funds s + unat v, entered := True\<rparr>) = Inr (s1, u)"
    and e: "s' = s1\<lparr>entered := False\<rparr>"
    unfolding purchaseArtwork_def by (auto dest!: nonReentrant_Inr)
  note f = purchaseArtwork_body_Inr [OF b]
  show "\<not> entered s" by (rule g)
  show "token_exists s tokenId" using f by (simp add: token_exists_def)
  show "forSale art" "price art \<le> v" "sender \<noteq> 0" "unat v * unat (platformFee s) < 2 ^ 256"
    using f by (simp_all add: art_def)
  show "seller \<noteq> artist art \<Longrightarrow> unat v * unat (royaltyPercentage art) < 2 ^ 256"
    using f by (simp add: art_def seller_def)
  show "unat fee \<le> unat v" using f by (simp add: fee_def)
  show "unat roy \<le> unat (v - fee)" using f by (simp add: roy_def fee_def art_def seller_def cong: if_cong)
  show "trace s' = trace s @
                   (if seller \<noteq> artist art
                    then [Sent (artist art) roy, Emitted (RoyaltyPaid tokenId (artist art) roy)]
                    else []) @
                   [OwnerSet tokenId sender, Sent (owner s) fee, Sent seller (v - fee - roy),
                    ForSaleSet tokenId False, Emitted (ArtworkSold tokenId seller sender v)]"
    using f e by (simp add: roy_def fee_def art_def seller_def cong: if_cong)
  show "artworks s' = (artworks s)(tokenId := art\<lparr>forSale := False\<rparr>)"
    "owners s' = (owners s)(tokenId := sender)"
    "userArtworks s' = userArtworks s" "hasRated s' = hasRated s" "tokenIds s' = tokenIds s"
    "platformFee s' = platformFee s" "galleries s' = galleries s" "reviews s' = reviews s"
    "entered s' = False" "owner s' = owner s"
    using f e by (simp_all add: art_def)
qed

subsection \<open>A purchase at a royalty of 100 percent\<close>

text \<open>
  At a royalty of 100 percent the royalty is the whole payment. If the fee is at
  least 1, the two subtractions that compute the seller's proceeds cannot both
  succeed; if the fee is 0, they give 0.
\<close>

lemma full_royalty_amount:
  assumes "unat v * 100 < 2 ^ 256"
  shows "(v * 100) div 100 = (v :: uint256)"
proof -
  have "unat (v * 100) = unat v * 100"
    using assms by (simp add: unat_mult_lem [THEN iffD1])
  then have "unat ((v * 100) div 100) = unat v" by (simp add: unat_div)
  then show ?thesis by (simp add: word_unat_eq_iff)
qed

lemma no_fee_amount:
  assumes "unat v * unat pf < 1000"
  shows "(v * pf) div 1000 = (0 :: uint256)"
proof -
  have "unat v * unat pf < 2 ^ 256" using assms by simp
  then have "unat (v * pf) = unat v * unat pf"
    by (simp add: unat_mult_lem [THEN iffD1])
  then have "unat ((v * pf) div 1000) = 0" using assms by (simp add: unat_div)
  then show ?thesis by (simp add: unat_eq_zero)
qed

lemma fee_amount_positive:
  assumes "unat v * unat pf < 2 ^ 256" and "1000 \<le> unat v * unat pf"
  shows "1 \<le> unat ((v * pf) div (1000 :: uint256))"
proof -
  have "unat (v * pf) = unat v * unat pf"
    using assms(1) by (simp add: unat_mult_lem [THEN iffD1])
  then have "unat ((v * pf) div 1000) = unat v * unat pf div 1000" by (simp add: unat_div)
  with assms(2) show ?thesis by (simp add: less_eq_div_iff_mult_less_eq)
qed

lemma proceeds_underflow:
  assumes "1 \<le> unat fee"
  shows "(case checked_sub v fee of
            Inl e \<Rightarrow> Inl e
          | Inr afterFee \<Rightarrow>
              (case checked_sub afterFee v of Inl e \<Rightarrow> Inl e | Inr proceeds \<Rightarrow> k proceeds))
         = Inl Panic"
proof (cases "unat fee \<le> unat v")
  case False
  then show ?thesis by (simp add: checked_sub_def)
next
  case True
  then have "unat (v - fee) = unat v - unat fee" by (simp add: unat_sub word_le_nat_alt)
  with assms True have "\<not> unat v \<le> unat (v - fee)" by linarith
  with True show ?thesis by (simp add: checked_sub_def)
qed

text \<open>
  The error of a secondary purchase at a royalty of 100 percent and a fee of at
  least 1, check by check in the order of the source.
\<close>

lemma purchase_full_royalty_error:
  assumes r: "royaltyPercentage (artworks s tokenId) = 100"
    and d: "owners s tokenId \<noteq> artist (artworks s tokenId)"
    and p: "1000 \<le> unat msg_value * unat (platformFee s)"
  shows "purchaseArtwork accepts sender msg_value tokenId s =
     Inl (if entered s then Revert ''ReentrancyGuard: reentrant call''
          else if \<not> token_exists s tokenId then Revert ''Artwork does not exist''
          else if \<not> forSale (artworks s tokenId) then Revert ''Artwork is not for sale''
          else if \<not> price (artworks s tokenId) \<le> msg_value then Revert ''Insufficient payment''
          else if \<not> unat msg_value * unat (platformFee s) < 2 ^ 256 then Panic
          else if \<not> unat msg_value * 100 < 2 ^ 256 then Panic
          else if \<not> accepts (artist (artworks s tokenId)) then TransferFailed
          else if sender = 0 then Revert ''ERC721: transfer to the zero address''
          else if funds s < unat ((msg_value * platformFee s) div 1000) \<or> \<not> accepts (owner s)
            then TransferFailed
          else Panic)"
proof (cases "unat msg_value * unat (platformFee s) < 2 ^ 256 \<and> unat msg_value * 100 < 2 ^ 256")
  case False
  then show ?thesis
    using r d
    by (auto simp: purchaseArtwork_def nonReentrant_def purchaseArtwork_body_def
          token_exists_def ownerOf_def checked_mul_def Let_def)
next
  case True
  note a = full_royalty_amount [of msg_value] fee_amount_positive [OF _ p]
  show ?thesis
    using r d True a
    by (simp add: purchaseArtwork_def nonReentrant_def purchaseArtwork_body_def
          token_exists_def ownerOf_def checked_mul_def transfer_def transfer_token_def
          emit_def Let_def proceeds_underflow)
qed

lemma purchase_full_royalty_small:
  assumes r: "royaltyPercentage (artworks s tokenId) = 100"
    and d: "owners s tokenId \<noteq> artist (artworks s tokenId)"
    and p: "unat msg_value * unat (platformFee s) < 1000"
    and c: "\<not> entered s" "token_exists s tokenId" "forSale (artworks s tokenId)"
      "price (artworks s tokenId) \<le> msg_value" "unat msg_value * 100 < 2 ^ 256"
      "accepts (artist (artworks s tokenId))" "sender \<noteq> 0" "accepts (owner s)"
      "accepts (owners s tokenId)"
  shows "checked_sub msg_value ((msg_value * platformFee s) div 1000) = Inr msg_value"
    "checked_sub msg_value ((msg_value * 100) div 100) = Inr 0"
    "case purchaseArtwork accepts sender msg_value tokenId s of
       Inl e \<Rightarrow> False
     | Inr (s', u) \<Rightarrow>
         payments (effects_of s s') =
           [(artist (artworks s tokenId), msg_value), (owner s, 0), (owners s tokenId, 0)]"
proof -
  note a = full_royalty_amount [OF c(5)] no_fee_amount [OF p]
  have m: "unat msg_value * unat (platformFee s) < 2 ^ 256" using p by simp
  show "checked_sub msg_value ((msg_value * platformFee s) div 1000) = Inr msg_value"
    "checked_sub msg_value ((msg_value * 100) div 100) = Inr 0"
    using a by (simp_all add: checked_sub_def)
  show "case purchaseArtwork accepts sender msg_value tokenId s of
       Inl e \<Rightarrow> False
     | Inr (s', u) \<Rightarrow>
         payments (effects_of s s') =
           [(artist (artworks s tokenId), msg_value), (owner s, 0), (owners s tokenId, 0)]"
    using r d c a m
    by (simp add: purchaseArtwork_def nonReentrant_def purchaseArtwork_body_def
          token_exists_def ownerOf_def checked_mul_def checked_sub_def transfer_def
          transfer_token_def emit_def Let_def effects_of_def)
qed

subsection \<open>What the other calls did when they returned\<close>

lemma createArtwork_Inr:
  assumes "createArtwork sender now title' tokenURI price' galleryId' royaltyPercentage' s
             = Inr (s', newTokenId)"
  shows "\<not> entered s" "newTokenId = tokenIds s + 1" "tokenIds s' = tokenIds s + 1"
    "\<not> token_exists s newTokenId" "sender \<noteq> 0"
    "owners s' = (owners s)(newTokenId := sender)"
    "artworks s' = (artworks s)(newTokenId :=
        \<lparr>title = title', artist = sender, price = price', forSale = True,
         totalRatings = 0, ratingSum = 0, galleryId = galleryId',
         royaltyPercentage = royaltyPercentage', createdAt = now\<rparr>)"
    "hasRated s' = hasRated s" "platformFee s' = platformFee s" "owner s' = owner s"
    "entered s' = False"
    "trace s' = trace s @ [OwnerSet newTokenId sender, ForSaleSet newTokenId True,
        Emitted (ArtworkCreated newTokenId title' sender price')]"
    "userArtworks s' = (userArtworks s)(sender := userArtworks s sender @ [newTokenId])"
  using assms
  unfolding createArtwork_def createArtwork_body_def
  by (auto simp: Let_def nonReentrant_def mint_def setTokenURI_def token_exists_def emit_def
        increment_def split: if_splits sum.splits prod.splits)

lemma createArtwork_succeeds:
  assumes "0 < length title'" "0 < price'" "isActive (galleries s galleryId')"
    "royaltyPercentage' \<le> 100" "\<not> entered s" "sender \<noteq> 0"
    "\<not> token_exists s (tokenIds s + 1)"
  shows "\<exists>s'. createArtwork sender now title' tokenURI price' galleryId' royaltyPercentage' s
             = Inr (s', tokenIds s + 1)"
  using assms
  unfolding createArtwork_def createArtwork_body_def
  by (simp add: Let_def nonReentrant_def mint_def setTokenURI_def token_exists_def emit_def
        increment_def)

lemma createGallery_Inr:
  assumes "createGallery sender now galleryId' name' description' s = Inr (s', u)"
  shows "tokenIds s' = tokenIds s" "owners s' = owners s" "artworks s' = artworks s"
    "hasRated s' = hasRated s" "platformFee s' = platformFee s" "entered s' = entered s"
    "trace s' = trace s @ [Emitted (GalleryCreated galleryId' name' sender)]"
    "userArtworks s' = userArtworks s"
  using assms unfolding createGallery_def
  by (auto simp: Let_def emit_def split: if_splits)

lemma addReview_Inr:
  assumes "addReview sender now tokenId comment' rating' s = Inr (s', u)"
  shows "token_exists s tokenId" "1 \<le> rating'" "rating' \<le> 5" "\<not> hasRated s tokenId sender"
    "tokenIds s' = tokenIds s" "owners s' = owners s"
    "artworks s' = (artworks s)(tokenId := (artworks s tokenId)
        \<lparr>totalRatings := totalRatings (artworks s tokenId) + 1,
         ratingSum := ratingSum (artworks s tokenId) + rating'\<rparr>)"
    "hasRated s' = (hasRated s)(tokenId := (hasRated s tokenId)(sender := True))"
    "platformFee s' = platformFee s" "entered s' = entered s"
    "trace s' = trace s @ [Emitted (ReviewAdded tokenId sender comment' rating')]"
    "unat (totalRatings (artworks s tokenId)) + 1 < 2 ^ 256"
    "unat (ratingSum (artworks s tokenId)) + unat rating' < 2 ^ 256"
    "reviews s' = (reviews s)(tokenId := reviews s tokenId @
        [\<lparr>reviewer = sender, comment = comment', rating = rating', timestamp = now\<rparr>])"
    "userArtworks s' = userArtworks s"
  using assms unfolding addReview_def
  by (auto simp: Let_def emit_def checked_add_def split: if_splits sum.splits)

lemma updatePlatformFee_Inr:
  assumes "updatePlatformFee sender newFee s = Inr (s', u)"
  shows "tokenIds s' = tokenIds s" "owners s' = owners s" "artworks s' = artworks s"
    "hasRated s' = hasRated s" "entered s' = entered s" "trace s' = trace s"
    "owner s = sender" "newFee \<le> 100" "platformFee s' = newFee"
  using assms unfolding updatePlatformFee_def
  by (auto split: if_splits)

subsection \<open>What every call keeps\<close>

lemma map_sum_fst_Inr: "map_sum id fst r = Inr s' \<longleftrightarrow> (\<exists>u. r = Inr (s', u))"
  by (cases r) auto

lemma step_token_exists:
  assumes "step accepts sender now c s = Inr s'" and "token_exists s t"
  shows "token_exists s' t"
proof (cases c)
  case (CreateArtwork x1 x2 x3 x4 x5)
  with assms(1) obtain i where "createArtwork sender now x1 x2 x3 x4 x5 s = Inr (s', i)"
    by (auto simp: map_sum_fst_Inr)
  from createArtwork_Inr(5,6) [OF this] assms(2) show ?thesis
    by (simp add: token_exists_def)
next
  case (PurchaseArtwork x1 x2)
  with assms(1) obtain u where "purchaseArtwork accepts sender x2 x1 s = Inr (s', u)"
    by (auto simp: map_sum_fst_Inr)
  from purchaseArtwork_Inr(5,12) [OF this] assms(2) show ?thesis
    by (simp add: token_exists_def)
next
  case (CreateGallery x1 x2 x3)
  with assms(1) obtain u where "createGallery sender now x1 x2 x3 s = Inr (s', u)"
    by (auto simp: map_sum_fst_Inr)
  from createGallery_Inr(2) [OF this] assms(2) show ?thesis
    by (simp add: token_exists_def)
next
  case (AddReview x1 x2 x3)
  with assms(1) obtain u where "addReview sender now x1 x2 x3 s = Inr (s', u)"
    by (auto simp: map_sum_fst_Inr)
  from addReview_Inr(6) [OF this] assms(2) show ?thesis
    by (simp add: token_exists_def)
next
  case (UpdatePlatformFee x1)
  with assms(1) obtain u where "updatePlatformFee sender x1 s = Inr (s', u)"
    by (auto simp: map_sum_fst_Inr)
  from updatePlatformFee_Inr(2) [OF this] assms(2) show ?thesis
    by (simp add: token_exists_def)
qed

lemma step_hasRated:
  assumes "step accepts sender now c s = Inr s'" and "hasRated s t a"
  shows "hasRated s' t a"
proof (cases c)
  case (CreateArtwork x1 x2 x3 x4 x5)
  with assms(1) obtain i where "createArtwork sender now x1 x2 x3 x4 x5 s = Inr (s', i)"
    by (auto simp: map_sum_fst_Inr)
  from createArtwork_Inr(8) [OF this] assms(2) show ?thesis by simp
next
  case (PurchaseArtwork x1 x2)
  with assms(1) obtain u where "purchaseArtwork accepts sender x2 x1 s = Inr (s', u)"
    by (auto simp: map_sum_fst_Inr)
  from purchaseArtwork_Inr(14) [OF this] assms(2) show ?thesis by simp
next
  case (CreateGallery x1 x2 x3)
  with assms(1) obtain u where "createGallery sender now x1 x2 x3 s = Inr (s', u)"
    by (auto simp: map_sum_fst_Inr)
  from createGallery_Inr(4) [OF this] assms(2) show ?thesis by simp
next
  case (AddReview x1 x2 x3)
  with assms(1) obtain u where "addReview sender now x1 x2 x3 s = Inr (s', u)"
    by (auto simp: map_sum_fst_Inr)
  from addReview_Inr(8) [OF this] assms(2) show ?thesis by auto
next
  case (UpdatePlatformFee x1)
  with assms(1) obtain u where "updatePlatformFee sender x1 s = Inr (s', u)"
    by (auto simp: map_sum_fst_Inr)
  from updatePlatformFee_Inr(4) [OF this] assms(2) show ?thesis by simp
qed

lemma execute_keeps_rated:
  assumes "token_exists s t \<and> hasRated s t a"
  shows "token_exists (execute accepts x s) t \<and> hasRated (execute accepts x s) t a"
proof -
  obtain sender now c where x: "x = (sender, now, c)" by (cases x)
  show ?thesis
  proof (cases "step accepts sender now c s")
    case (Inl e)
    with assms x show ?thesis by simp
  next
    case (Inr s')
    with assms x step_token_exists [OF Inr] step_hasRated [OF Inr] show ?thesis by simp
  qed
qed

lemma run_keeps_rated:
  "token_exists s t \<and> hasRated s t a \<Longrightarrow>
     token_exists (run accepts txs s) t \<and> hasRated (run accepts txs s) t a"
proof (induction txs arbitrary: s)
  case Nil
  then show ?case by simp
next
  case (Cons x txs)
  from Cons.IH [OF execute_keeps_rated [OF Cons.prems]] show ?case by simp
qed

lemma execute_tokenIds:
  assumes "\<And>t u p g r. c \<noteq> CreateArtwork t u p g r"
  shows "tokenIds (execute accepts (sender, now, c) s) = tokenIds s"
proof (cases "step accepts sender now c s")
  case (Inl e)
  then show ?thesis by simp
next
  case (Inr s')
  have "tokenIds s' = tokenIds s"
  proof (cases c)
    case (CreateArtwork x1 x2 x3 x4 x5)
    with assms show ?thesis by blast
  next
    case (PurchaseArtwork x1 x2)
    with Inr obtain u where "purchaseArtwork accepts sender x2 x1 s = Inr (s', u)"
      by (auto simp: map_sum_fst_Inr)
    from purchaseArtwork_Inr(15) [OF this] show ?thesis .
  next
    case (CreateGallery x1 x2 x3)
    with Inr obtain u where "createGallery sender now x1 x2 x3 s = Inr (s', u)"
      by (auto simp: map_sum_fst_Inr)
    from createGallery_Inr(1) [OF this] show ?thesis .
  next
    case (AddReview x1 x2 x3)
    with Inr obtain u where "addReview sender now x1 x2 x3 s = Inr (s', u)"
      by (auto simp: map_sum_fst_Inr)
    from addReview_Inr(5) [OF this] show ?thesis .
  next
    case (UpdatePlatformFee x1)
    with Inr obtain u where "updatePlatformFee sender x1 s = Inr (s', u)"
      by (auto simp: map_sum_fst_Inr)
    from updatePlatformFee_Inr(1) [OF this] show ?thesis .
  qed
  with Inr show ?thesis by simp
qed

lemma issued_other:
  assumes "\<And>t u p g r. c \<noteq> CreateArtwork t u p g r"
  shows "issued accepts ((sender, now, c) # ts) s
           = issued accepts ts (execute accepts (sender, now, c) s)"
proof (cases c)
  case (CreateArtwork x1 x2 x3 x4 x5)
  with assms show ?thesis by blast
qed simp_all

lemma execute_token_exists:
  assumes "token_exists s t"
  shows "token_exists (execute accepts x s) t"
proof -
  obtain sender now c where x: "x = (sender, now, c)" by (cases x)
  show ?thesis
  proof (cases "step accepts sender now c s")
    case (Inl e)
    with assms x show ?thesis by simp
  next
    case (Inr s')
    with assms x step_token_exists [OF Inr] show ?thesis by simp
  qed
qed

lemma issued_fresh:
  "distinct (issued accepts txs s) \<and> list_all (\<lambda>i. \<not> token_exists s i) (issued accepts txs s)"
proof (induction txs arbitrary: s)
  case Nil
  then show ?case by simp
next
  case (Cons x txs)
  obtain sender now c where x: "x = (sender, now, c)" by (cases x)
  show ?case
  proof (cases "\<exists>t u p g r. c = CreateArtwork t u p g r")
    case False
    then have n: "\<And>t u p g r. c \<noteq> CreateArtwork t u p g r" by blast
    have "list_all (\<lambda>i. \<not> token_exists s i) (issued accepts txs (execute accepts x s))"
      using Cons.IH [of "execute accepts x s"] execute_token_exists [of s _ accepts x]
      by (auto simp: list_all_iff)
    with Cons.IH [of "execute accepts x s"] show ?thesis
      unfolding x issued_other [OF n] by simp
  next
    case True
    then obtain t u p g r where c: "c = CreateArtwork t u p g r" by blast
    show ?thesis
    proof (cases "createArtwork sender now t u p g r s")
      case (Inl e)
      with Cons.IH [of s] show ?thesis by (simp add: x c)
    next
      case (Inr q)
      obtain s' i where q: "q = (s', i)" by (cases q)
      note f = createArtwork_Inr(4,5,6) [OF Inr [unfolded q]]
      have e: "execute accepts x s = s'" using Inr q by (simp add: x c)
      have new: "token_exists s' i" using f by (simp add: token_exists_def)
      have old: "list_all (\<lambda>j. \<not> token_exists s j) (issued accepts txs s')"
        using Cons.IH [of s'] execute_token_exists [of s _ accepts x] e
        by (auto simp: list_all_iff)
      have "i \<notin> set (issued accepts txs s')"
        using Cons.IH [of s'] new by (auto simp: list_all_iff)
      with Cons.IH [of s'] old f(1) show ?thesis
        using Inr q by (simp add: x c)
    qed
  qed
qed

lemma issued_sorted:
  "unat (tokenIds s) + length txs < 2 ^ 256 \<Longrightarrow>
     sorted_wrt (<) (issued accepts txs s)
   \<and> list_all (\<lambda>i. tokenIds s < i) (issued accepts txs s)
   \<and> unat (tokenIds (run accepts txs s)) = unat (tokenIds s) + length (issued accepts txs s)"
proof (induction txs arbitrary: s)
  case Nil
  then show ?case by simp
next
  case (Cons x txs)
  obtain sender now c where x: "x = (sender, now, c)" by (cases x)
  show ?case
  proof (cases "\<exists>t u p g r. c = CreateArtwork t u p g r")
    case False
    then have n: "\<And>t u p g r. c \<noteq> CreateArtwork t u p g r" by blast
    have k: "tokenIds (execute accepts (sender, now, c) s) = tokenIds s"
      by (rule execute_tokenIds [OF n])
    have "unat (tokenIds (execute accepts (sender, now, c) s)) + length txs < 2 ^ 256"
      using Cons.prems k by simp
    from Cons.IH [OF this] show ?thesis
      unfolding x issued_other [OF n] k by simp
  next
    case True
    then obtain t u p g r where c: "c = CreateArtwork t u p g r" by blast
    show ?thesis
    proof (cases "createArtwork sender now t u p g r s")
      case (Inl e)
      have "unat (tokenIds s) + length txs < 2 ^ 256" using Cons.prems by simp
      from Cons.IH [OF this] show ?thesis
        using Inl by (simp add: x c)
    next
      case (Inr q)
      obtain s' i where q: "q = (s', i)" by (cases q)
      note f = createArtwork_Inr(2,3) [OF Inr [unfolded q]]
      have b: "unat (tokenIds s) + 1 < 2 ^ 256" using Cons.prems by simp
      then have u: "unat (tokenIds s + 1) = unat (tokenIds s) + 1"
        by (simp add: unat_add_lem [THEN iffD1])
      then have lt: "tokenIds s < tokenIds s + 1" by (simp add: word_less_nat_alt)
      have "unat (tokenIds s') + length txs < 2 ^ 256" using Cons.prems f u by simp
      from Cons.IH [OF this]
      have ih: "sorted_wrt (<) (issued accepts txs s')"
        "list_all (\<lambda>i. tokenIds s' < i) (issued accepts txs s')"
        "unat (tokenIds (run accepts txs s')) = unat (tokenIds s') + length (issued accepts txs s')"
        by simp_all
      have gt: "list_all (\<lambda>j. tokenIds s < j) (issued accepts txs s')"
        using ih(2) lt f by (auto simp: list_all_iff)
      show ?thesis
        using ih gt lt f u Inr q by (simp add: x c list_all_iff)
    qed
  qed
qed

subsection \<open>Evaluating the example\<close>

lemmas eval_defs = purchaseArtwork_def nonReentrant_def purchaseArtwork_body_def
  token_exists_def ownerOf_def checked_mul_def checked_sub_def checked_add_def transfer_def
  transfer_token_def emit_def increment_def mint_def setTokenURI_def createArtwork_def
  createArtwork_body_def createGallery_def addReview_def updatePlatformFee_def getArtwork_def
  Let_def

lemma demo_after_deployment: "run (\<lambda>_. True) (take 2 demo_txs) (constructor 1) = demo 2 1000 10"
  by (simp add: demo_txs_def eval_defs constructor_def zero_Gallery_def demo_def)

lemma demo_purchase_primary:
  "purchaseArtwork (\<lambda>_. True) 3 1000 1 (demo 2 1000 10) = Inr (demo_sold, ())"
  by (simp add: eval_defs demo_def demo_sold_def)

lemma demo_purchase_secondary:
  "purchaseArtwork (\<lambda>_. True) 4 1000 1 (demo 3 1000 10) =
     Inr ((demo 3 1000 10)\<lparr>artworks := (artworks (demo 3 1000 10))(1 :=
              (artworks (demo 3 1000 10) 1)\<lparr>forSale := False\<rparr>),
            owners := (owners (demo 3 1000 10))(1 := 4),
            balances := (balances (demo 3 1000 10))(3 := 0, 4 := 1),
            trace := trace (demo 3 1000 10) @
                     [Sent 2 100, Emitted (RoyaltyPaid 1 2 100), OwnerSet 1 4, Sent 1 25,
                      Sent 3 875, ForSaleSet 1 False, Emitted (ArtworkSold 1 3 4 1000)]\<rparr>, ())"
  by (simp add: eval_defs demo_def)

lemma demo_purchase_full_royalty:
  "purchaseArtwork (\<lambda>_. True) 4 1 1 (demo 3 1 100) =
     Inr ((demo 3 1 100)\<lparr>artworks := (artworks (demo 3 1 100))(1 :=
              (artworks (demo 3 1 100) 1)\<lparr>forSale := False\<rparr>),
            owners := (owners (demo 3 1 100))(1 := 4),
            balances := (balances (demo 3 1 100))(3 := 0, 4 := 1),
            trace := trace (demo 3 1 100) @
                     [Sent 2 1, Emitted (RoyaltyPaid 1 2 1), OwnerSet 1 4, Sent 1 0,
                      Sent 3 0, ForSaleSet 1 False, Emitted (ArtworkSold 1 3 4 1)]\<rparr>, ())"
  by (simp add: eval_defs demo_def)

lemma demo_review_first:
  "addReview 3 0 1 ''nice'' 4 (demo 2 1000 10) = Inr (demo_rated, ())"
  by (simp add: eval_defs demo_def demo_rated_def)

lemma demo_review_second:
  "addReview 4 0 1 ''dull'' 2 demo_rated = Inr (demo_rated_twice, ())"
  by (simp add: eval_defs demo_def demo_rated_def demo_rated_twice_def)

lemma demo_txs_issued: "issued (\<lambda>_. True) demo_txs (constructor 1) = [1, 2]"
  by (simp add: demo_txs_def eval_defs constructor_def zero_Gallery_def)

subsection \<open>C1: the order of effects in a purchase\<close>

text \<open>
  Claim C1 as stated fails. In the purchase of token 1 from its artist for 1000
  wei, the platform fee and the seller's proceeds are paid out before the
  \<open>forSale\<close> flag is cleared and before \<open>ArtworkSold\<close> is emitted, so the effects
  are not in the order \<open>spec_mutate_before_transfer\<close>.
\<close>

theorem purchase_order_counterexample:
  "case purchaseArtwork (\<lambda>_. True) 3 1000 1 (demo 2 1000 10) of
     Inl e \<Rightarrow> False
   | Inr (s', u) \<Rightarrow> \<not> spec_mutate_before_transfer (effects_of (demo 2 1000 10) s')"
  by (simp add: demo_purchase_primary effects_of_def) (simp add: demo_sold_def demo_def out_of_order_def)

text \<open>
  Claim C1, amended. A purchase that succeeds was not made inside another
  guarded call (the \<open>nonReentrant\<close> guard was free), and its effects are, in this
  order: on a secondary sale the royalty payment to the artist and
  \<open>RoyaltyPaid\<close>; the write of the new owner; the payment of the platform fee
  to the contract's owner; the payment of the remainder to the seller; the
  write \<open>forSale = false\<close>; the event \<open>ArtworkSold\<close>. So the owner is written
  before the fee and the proceeds are paid, and the \<open>forSale\<close> write and the
  sale event come after every payment.
\<close>

theorem purchase_effect_order:
  assumes "purchaseArtwork accepts sender msg_value tokenId s = Inr (s', u)"
  shows "\<not> entered s \<and>
    effects_of s s' =
      (let art = artworks s tokenId; seller = owners s tokenId;
           platformFeeAmount = (msg_value * platformFee s) div 1000;
           royaltyAmount = (if seller \<noteq> artist art
                            then (msg_value * royaltyPercentage art) div 100 else 0)
       in (if seller \<noteq> artist art
           then [Sent (artist art) royaltyAmount,
                 Emitted (RoyaltyPaid tokenId (artist art) royaltyAmount)]
           else []) @
          [OwnerSet tokenId sender,
           Sent (owner s) platformFeeAmount,
           Sent seller (msg_value - platformFeeAmount - royaltyAmount),
           ForSaleSet tokenId False,
           Emitted (ArtworkSold tokenId seller sender msg_value)])"
  using purchaseArtwork_Inr(1,10) [OF assms] by (simp add: effects_of_def Let_def)

text \<open>Witness for C1: a secondary sale of token 1 for 1000 wei at royalty 10 and fee 25.\<close>

theorem purchase_effect_order_witness:
  "case purchaseArtwork (\<lambda>_. True) 4 1000 1 (demo 3 1000 10) of
      Inl e \<Rightarrow> False
    | Inr (s', u) \<Rightarrow>
        \<not> entered (demo 3 1000 10) \<and>
        effects_of (demo 3 1000 10) s' =
          [Sent 2 100, Emitted (RoyaltyPaid 1 2 100), OwnerSet 1 4, Sent 1 25, Sent 3 875,
           ForSaleSet 1 False, Emitted (ArtworkSold 1 3 4 1000)]"
  using purchase_effect_order [OF demo_purchase_secondary]
  by (simp add: demo_purchase_secondary) (simp add: demo_def)

subsection \<open>C2: the split of a secondary sale\<close>

text \<open>
  Claim C2. In every successful purchase whose seller is not the artist, exactly
  three payments are made: the royalty \<open>floor (payment * royaltyPercentage / 100)\<close>
  to the artist, the fee \<open>floor (payment * platformFee / 1000)\<close> to the
  contract's owner, and \<open>payment - fee - royalty\<close> to the seller, with no
  wrap-around in any of the three; together they are the whole payment.
\<close>

theorem purchase_split_secondary:
  assumes "purchaseArtwork accepts sender msg_value tokenId s = Inr (s', u)"
    and "owners s tokenId \<noteq> artist (artworks s tokenId)"
  shows "let royaltyAmount = (msg_value * royaltyPercentage (artworks s tokenId)) div 100;
             platformFeeAmount = (msg_value * platformFee s) div 1000;
             sellerProceeds = msg_value - platformFeeAmount - royaltyAmount
         in payments (effects_of s s') =
              [(artist (artworks s tokenId), royaltyAmount), (owner s, platformFeeAmount),
               (owners s tokenId, sellerProceeds)]
          \<and> unat royaltyAmount =
              unat msg_value * unat (royaltyPercentage (artworks s tokenId)) div 100
          \<and> unat platformFeeAmount = unat msg_value * unat (platformFee s) div 1000
          \<and> int (unat sellerProceeds) =
              int (unat msg_value) - int (unat royaltyAmount) - int (unat platformFeeAmount)
          \<and> unat royaltyAmount + unat platformFeeAmount + unat sellerProceeds = unat msg_value"
proof -
  define roy where "roy = (msg_value * royaltyPercentage (artworks s tokenId)) div 100"
  define fee where "fee = (msg_value * platformFee s) div 1000"
  note f = purchaseArtwork_Inr [OF assms(1)]
  have t: "payments (effects_of s s') =
      [(artist (artworks s tokenId), roy), (owner s, fee), (owners s tokenId, msg_value - fee - roy)]"
    using f(10) assms(2) by (simp add: effects_of_def roy_def fee_def)
  have r: "unat roy = unat msg_value * unat (royaltyPercentage (artworks s tokenId)) div 100"
    using f(7) [OF assms(2)] by (simp add: roy_def unat_div unat_mult_lem [THEN iffD1])
  have p: "unat fee = unat msg_value * unat (platformFee s) div 1000"
    using f(6) by (simp add: fee_def unat_div unat_mult_lem [THEN iffD1])
  have a: "unat fee \<le> unat msg_value" using f(8) by (simp add: fee_def)
  have b: "unat roy \<le> unat (msg_value - fee)" using f(9) assms(2) by (simp add: fee_def roy_def)
  have c: "unat (msg_value - fee) = unat msg_value - unat fee"
    using a by (simp add: unat_sub word_le_nat_alt)
  have d: "unat (msg_value - fee - roy) = unat msg_value - unat fee - unat roy"
    using b c by (simp add: unat_sub word_le_nat_alt)
  have i: "int (unat (msg_value - fee - roy)) = int (unat msg_value) - int (unat roy) - int (unat fee)"
    using a b c d by linarith
  have n: "unat roy + unat fee + unat (msg_value - fee - roy) = unat msg_value"
    using a b c d by linarith
  show ?thesis
    unfolding Let_def roy_def [symmetric] fee_def [symmetric]
    using t r p i n by blast
qed

text \<open>Witness for C2: of 1000 wei, 100 go to the artist, 25 to the owner, 875 to the seller.\<close>

theorem purchase_split_secondary_witness:
  "owners (demo 3 1000 10) 1 \<noteq> artist (artworks (demo 3 1000 10) 1) \<and>
   (case purchaseArtwork (\<lambda>_. True) 4 1000 1 (demo 3 1000 10) of
      Inl e \<Rightarrow> False
    | Inr (s', u) \<Rightarrow>
        payments (effects_of (demo 3 1000 10) s') = [(2, 100), (1, 25), (3, 875)])"
proof -
  have h: "owners (demo 3 1000 10) 1 \<noteq> artist (artworks (demo 3 1000 10) 1)"
    by (simp add: demo_def)
  from purchase_split_secondary [OF demo_purchase_secondary h] h show ?thesis
    by (simp add: demo_purchase_secondary Let_def) (simp add: demo_def)
qed

subsection \<open>C4: an artwork that is not for sale\<close>

text \<open>
  Claim C4. For an existing token whose \<open>forSale\<close> flag is false, a purchase
  (a call from outside, so with the reentrancy guard free) reverts with
  \<open>Artwork is not for sale\<close>, whoever calls and whatever is paid.
\<close>

theorem purchase_not_for_sale:
  assumes "token_exists s tokenId" and "\<not> forSale (artworks s tokenId)" and "\<not> entered s"
  shows "purchaseArtwork accepts sender msg_value tokenId s =
           Inl (Revert ''Artwork is not for sale'')"
  using assms
  by (simp add: purchaseArtwork_def nonReentrant_def purchaseArtwork_body_def token_exists_def)

text \<open>Witness for C4: token 1 after its sale is not for sale, and an offer of 5000 wei is refused.\<close>

theorem purchase_not_for_sale_witness:
  "token_exists demo_sold 1 \<and> \<not> forSale (artworks demo_sold 1) \<and> \<not> entered demo_sold \<and>
   purchaseArtwork (\<lambda>_. True) 4 5000 1 demo_sold = Inl (Revert ''Artwork is not for sale'')"
proof -
  have a: "token_exists demo_sold 1" by (simp add: demo_sold_def demo_def token_exists_def)
  have b: "\<not> forSale (artworks demo_sold 1)" by (simp add: demo_sold_def)
  have c: "\<not> entered demo_sold" by (simp add: demo_sold_def demo_def)
  from purchase_not_for_sale [OF a b c, of "\<lambda>_. True" 4 5000] a b c show ?thesis by simp
qed

subsection \<open>C5: a primary sale pays no royalty\<close>

text \<open>
  Claim C5. In every successful purchase whose seller is the artist, the royalty
  amount is 0: only two payments are made, the fee to the contract's owner and
  \<open>payment - fee - 0\<close> to the seller, and no \<open>RoyaltyPaid\<close> event is emitted,
  whatever the artwork's \<open>royaltyPercentage\<close>.
\<close>

theorem purchase_primary_no_royalty:
  assumes "purchaseArtwork accepts sender msg_value tokenId s = Inr (s', u)"
    and "owners s tokenId = artist (artworks s tokenId)"
  shows "let platformFeeAmount = (msg_value * platformFee s) div 1000
         in payments (effects_of s s') =
              [(owner s, platformFeeAmount), (owners s tokenId, msg_value - platformFeeAmount - 0)]
          \<and> list_all (\<lambda>e. \<not> is_royalty_event e) (effects_of s s')
          \<and> unat (msg_value - platformFeeAmount - 0) = unat msg_value - unat platformFeeAmount"
proof -
  note f = purchaseArtwork_Inr [OF assms(1)]
  have "unat (msg_value - (msg_value * platformFee s) div 1000)
          = unat msg_value - unat ((msg_value * platformFee s) div 1000)"
    using f(8) by (simp add: unat_sub word_le_nat_alt)
  then show ?thesis
    using f(10) assms(2) by (simp add: effects_of_def Let_def)
qed

text \<open>Witness for C5: the artist sells token 1 (royalty 10) for 1000 wei.\<close>

theorem purchase_primary_no_royalty_witness:
  "owners (demo 2 1000 10) 1 = artist (artworks (demo 2 1000 10) 1) \<and>
   (case purchaseArtwork (\<lambda>_. True) 3 1000 1 (demo 2 1000 10) of
      Inl e \<Rightarrow> False
    | Inr (s', u) \<Rightarrow>
        payments (effects_of (demo 2 1000 10) s') = [(1, 25), (2, 975)] \<and>
        list_all (\<lambda>e. \<not> is_royalty_event e) (effects_of (demo 2 1000 10) s'))"
proof -
  have h: "owners (demo 2 1000 10) 1 = artist (artworks (demo 2 1000 10) 1)"
    by (simp add: demo_sold_def demo_def)
  from purchase_primary_no_royalty [OF demo_purchase_primary h] h show ?thesis
    by (simp add: demo_purchase_primary Let_def) (simp add: demo_sold_def demo_def)
qed

subsection \<open>C6: a second review by the same caller\<close>

text \<open>
  Claim C6 as stated fails: \<open>addReview\<close> checks the rating before it looks up
  \<open>hasRated\<close>, so a second review with the rating 6 is refused because of the
  rating, not as a repeated review.
\<close>

theorem second_review_counterexample:
  "case addReview 3 0 1 ''nice'' 4 (demo 2 1000 10) of
     Inl e \<Rightarrow> False
   | Inr (s1, u) \<Rightarrow>
       addReview 3 0 1 ''again'' 6 s1 = Inl (Revert ''Rating must be between 1 and 5'') \<and>
       addReview 3 0 1 ''again'' 6 s1 \<noteq> Inl (Revert ''User has already rated this artwork'')"
  by (simp add: demo_review_first) (simp add: eval_defs demo_def demo_rated_def)

text \<open>
  Claim C6, amended. After a successful review by \<open>sender\<close> of \<open>tokenId\<close>, and
  after any further transactions, another \<open>addReview\<close> by the same sender on the
  same token reverts: with \<open>User has already rated this artwork\<close> when its
  rating is between 1 and 5, with \<open>Rating must be between 1 and 5\<close> otherwise.
  The refused transaction leaves the whole storage as it was, so the artwork's
  \<open>totalRatings\<close> and \<open>ratingSum\<close> and its reviews are unchanged.
\<close>

theorem second_review_rejected:
  assumes "addReview sender now tokenId comment' rating' s = Inr (s1, u)"
  shows "let s2 = run accepts txs s1 in
           addReview sender now2 tokenId comment2 rating2 s2 =
             Inl (Revert (if 1 \<le> rating2 \<and> rating2 \<le> 5
                          then ''User has already rated this artwork''
                          else ''Rating must be between 1 and 5''))
         \<and> execute accepts (sender, now2, AddReview tokenId comment2 rating2) s2 = s2"
proof -
  from addReview_Inr(1,6,8) [OF assms]
  have "token_exists s1 tokenId \<and> hasRated s1 tokenId sender"
    by (simp add: token_exists_def)
  from run_keeps_rated [OF this, of accepts txs]
  have k: "token_exists (run accepts txs s1) tokenId"
    "hasRated (run accepts txs s1) tokenId sender" by simp_all
  have r: "addReview sender now2 tokenId comment2 rating2 (run accepts txs s1) =
             Inl (Revert (if 1 \<le> rating2 \<and> rating2 \<le> 5
                          then ''User has already rated this artwork''
                          else ''Rating must be between 1 and 5''))"
    using k by (simp add: addReview_def)
  show ?thesis unfolding Let_def using r by simp
qed

text \<open>Witness for C6: address 3 reviews token 1, the token is sold, address 3 tries again.\<close>

theorem second_review_rejected_witness:
  "addReview 3 0 1 ''nice'' 4 (demo 2 1000 10) = Inr (demo_rated, ()) \<and>
   addReview 3 9 1 ''again'' 5 (run (\<lambda>_. True) [(4, 8, PurchaseArtwork 1 1000)] demo_rated) =
     Inl (Revert ''User has already rated this artwork'') \<and>
   execute (\<lambda>_. True) (3, 9, AddReview 1 ''again'' 5)
       (run (\<lambda>_. True) [(4, 8, PurchaseArtwork 1 1000)] demo_rated) =
     run (\<lambda>_. True) [(4, 8, PurchaseArtwork 1 1000)] demo_rated"
  using second_review_rejected [OF demo_review_first,
      of "\<lambda>_. True" "[(4, 8, PurchaseArtwork 1 1000)]" 9 "''again''" 5]
  by (simp add: demo_review_first Let_def del: run.simps execute.simps)

subsection \<open>C7: the average rating\<close>

text \<open>
  Claim C7. For an existing token, the average that \<open>getArtwork\<close> returns is
  \<open>floor (ratingSum / totalRatings)\<close> when \<open>totalRatings > 0\<close> and 0 otherwise;
  and after exactly the two ratings 4 and 2, in either order, on an artwork
  without ratings it is 3.
\<close>

theorem getArtwork_average:
  "(token_exists s tokenId \<longrightarrow>
      (case getArtwork tokenId s of
         Inl e \<Rightarrow> False
       | Inr (t, a, p, f, avgRating, g, r) \<Rightarrow>
           unat avgRating =
             (if 0 < unat (totalRatings (artworks s tokenId))
              then unat (ratingSum (artworks s tokenId)) div unat (totalRatings (artworks s tokenId))
              else 0)))
   \<and> (totalRatings (artworks s tokenId) = 0 \<and> ratingSum (artworks s tokenId) = 0 \<and>
      {r1, r2} = {4, 2} \<and>
      addReview a1 n1 tokenId c1 r1 s = Inr (s1, u1) \<and>
      addReview a2 n2 tokenId c2 r2 s1 = Inr (s2, u2)
      \<longrightarrow> (case getArtwork tokenId s2 of
            Inl e \<Rightarrow> False
          | Inr (t, a, p, f, avgRating, g, r) \<Rightarrow> avgRating = 3))"
proof (intro conjI impI)
  assume "token_exists s tokenId"
  then show "case getArtwork tokenId s of
         Inl e \<Rightarrow> False
       | Inr (t, a, p, f, avgRating, g, r) \<Rightarrow>
           unat avgRating =
             (if 0 < unat (totalRatings (artworks s tokenId))
              then unat (ratingSum (artworks s tokenId)) div unat (totalRatings (artworks s tokenId))
              else 0)"
    by (simp add: getArtwork_def Let_def unat_div word_less_nat_alt)
next
  assume h: "totalRatings (artworks s tokenId) = 0 \<and> ratingSum (artworks s tokenId) = 0 \<and>
      {r1, r2} = {4, 2} \<and>
      addReview a1 n1 tokenId c1 r1 s = Inr (s1, u1) \<and>
      addReview a2 n2 tokenId c2 r2 s1 = Inr (s2, u2)"
  note f1 = addReview_Inr [OF h [THEN conjunct2, THEN conjunct2, THEN conjunct2, THEN conjunct1]]
  note f2 = addReview_Inr [OF h [THEN conjunct2, THEN conjunct2, THEN conjunct2, THEN conjunct2]]
  have e: "token_exists s2 tokenId" using f2(1,6) by (simp add: token_exists_def)
  have "r1 = 4 \<and> r2 = 2 \<or> r1 = 2 \<and> r2 = 4" using h by (auto simp: doubleton_eq_iff)
  then have "totalRatings (artworks s2 tokenId) = 2 \<and> ratingSum (artworks s2 tokenId) = 6"
    using f1(7) f2(7) h by auto
  then show "case getArtwork tokenId s2 of
            Inl e \<Rightarrow> False
          | Inr (t, a, p, f, avgRating, g, r) \<Rightarrow> avgRating = 3"
    using e by (simp add: getArtwork_def Let_def)
qed

text \<open>Witness for C7: token 1 rated 4 by address 3 and 2 by address 4.\<close>

theorem getArtwork_average_witness:
  "token_exists demo_rated_twice 1 \<and>
   totalRatings (artworks (demo 2 1000 10) 1) = 0 \<and>
   ratingSum (artworks (demo 2 1000 10) 1) = 0 \<and>
   {4, 2} = {4, 2 :: uint256} \<and>
   addReview 3 0 1 ''nice'' 4 (demo 2 1000 10) = Inr (demo_rated, ()) \<and>
   addReview 4 0 1 ''dull'' 2 demo_rated = Inr (demo_rated_twice, ()) \<and>
   (case getArtwork 1 demo_rated_twice of
      Inl e \<Rightarrow> False
    | Inr (t, a, p, f, avgRating, g, r) \<Rightarrow> unat avgRating = 6 div 2 \<and> avgRating = 3)"
proof -
  have e: "token_exists demo_rated_twice 1"
    by (simp add: token_exists_def demo_rated_twice_def demo_rated_def demo_def)
  have z: "totalRatings (artworks (demo 2 1000 10) 1) = 0 \<and>
           ratingSum (artworks (demo 2 1000 10) 1) = 0" by (simp add: demo_def)
  have v: "unat (totalRatings (artworks demo_rated_twice 1)) = 2 \<and>
           unat (ratingSum (artworks demo_rated_twice 1)) = 6"
    by (simp add: demo_rated_twice_def demo_rated_def demo_def)
  from getArtwork_average [where s = demo_rated_twice and tokenId = 1]
    getArtwork_average [where s = "demo 2 1000 10" and tokenId = 1 and ?r1.0 = 4 and ?r2.0 = 2
      and ?a1.0 = 3 and ?n1.0 = 0 and ?c1.0 = "''nice''" and ?s1.0 = demo_rated and ?u1.0 = "()"
      and ?a2.0 = 4 and ?n2.0 = 0 and ?c2.0 = "''dull''" and ?s2.0 = demo_rated_twice
      and ?u2.0 = "()"]
  show ?thesis using e z v demo_review_first demo_review_second
    by (auto split: sum.splits)
qed

subsection \<open>C9: purchases and the per-user list\<close>

text \<open>
  Claim C9. A successful purchase leaves \<open>userArtworks\<close>, as \<open>getUserArtworks\<close>
  reads it, unchanged for every address: the token is neither removed from the
  seller's list nor added to the buyer's.
\<close>

theorem purchase_keeps_userArtworks:
  assumes "purchaseArtwork accepts sender msg_value tokenId s = Inr (s', u)"
  shows "getUserArtworks user s' = getUserArtworks user s"
  using purchaseArtwork_Inr(13) [OF assms] by (simp add: getUserArtworks_def)

text \<open>Witness for C9: after the sale of token 1 the artist still lists it and the buyer does not.\<close>

theorem purchase_keeps_userArtworks_witness:
  "case purchaseArtwork (\<lambda>_. True) 3 1000 1 (demo 2 1000 10) of
      Inl e \<Rightarrow> False
    | Inr (s', u) \<Rightarrow>
        owners s' 1 = 3 \<and> getUserArtworks 2 s' = [1] \<and> getUserArtworks 3 s' = []"
  using purchase_keeps_userArtworks [OF demo_purchase_primary, of 2]
    purchase_keeps_userArtworks [OF demo_purchase_primary, of 3]
  by (simp add: demo_purchase_primary) (simp add: demo_sold_def demo_def getUserArtworks_def)

subsection \<open>C10: a royalty of 100 percent\<close>

text \<open>
  Claim C10 as stated fails. With a royalty of 100, a fee rate of 25 and a
  payment of 1 wei the fee is \<open>floor (25 / 1000) = 0\<close>, the subtraction
  \<open>1 - 0 - 1\<close> does not go below zero, and the secondary purchase succeeds.
\<close>

theorem full_royalty_counterexample:
  "royaltyPercentage (artworks (demo 3 1 100) 1) = 100 \<and>
   0 < platformFee (demo 3 1 100) \<and>
   owners (demo 3 1 100) 1 \<noteq> artist (artworks (demo 3 1 100) 1) \<and>
   \<not> isl (purchaseArtwork (\<lambda>_. True) 4 1 1 (demo 3 1 100))"
  by (simp add: demo_purchase_full_royalty) (simp add: demo_def)

text \<open>
  Claim C10, amended. Take a secondary purchase of an artwork whose
  \<open>royaltyPercentage\<close> is 100. When the platform fee amount is at least 1, that
  is \<open>payment * platformFee \<ge> 1000\<close>, the purchase always fails and leaves the
  storage as it was, and the error is the one given here check by check: the
  royalty transfer takes the whole payment, so the call stops at a check or at
  a transfer before the seller's proceeds are computed (at the fee transfer
  when the contract holds less than the fee besides the payment), and a call
  that gets as far as the subtraction \<open>payment - fee - royalty\<close> panics there,
  because it would go below zero. When \<open>payment * platformFee < 1000\<close> the fee
  amount is 0, the subtraction gives 0, and a purchase whose checks pass and
  whose transfers are accepted succeeds: the whole payment goes to the artist
  and 0 to the contract's owner and to the seller. And \<open>createArtwork\<close> accepts
  a royalty of 100: a call with a title, a price above 0 and an active gallery
  (made from outside, by a sender other than the zero address, while the next
  token id is unused) returns an artwork whose \<open>royaltyPercentage\<close> is 100.
\<close>

theorem full_royalty_purchase_fails:
  "(royaltyPercentage (artworks s tokenId) = 100 \<and>
    owners s tokenId \<noteq> artist (artworks s tokenId) \<and>
    1000 \<le> unat msg_value * unat (platformFee s)
    \<longrightarrow> purchaseArtwork accepts sender msg_value tokenId s =
          Inl (if entered s then Revert ''ReentrancyGuard: reentrant call''
               else if \<not> token_exists s tokenId then Revert ''Artwork does not exist''
               else if \<not> forSale (artworks s tokenId) then Revert ''Artwork is not for sale''
               else if \<not> price (artworks s tokenId) \<le> msg_value
                 then Revert ''Insufficient payment''
               else if \<not> unat msg_value * unat (platformFee s) < 2 ^ 256 then Panic
               else if \<not> unat msg_value * 100 < 2 ^ 256 then Panic
               else if \<not> accepts (artist (artworks s tokenId)) then TransferFailed
               else if sender = 0 then Revert ''ERC721: transfer to the zero address''
               else if funds s < unat ((msg_value * platformFee s) div 1000)
                       \<or> \<not> accepts (owner s)
                 then TransferFailed
               else Panic)
      \<and> isl (purchaseArtwork accepts sender msg_value tokenId s)
      \<and> execute accepts (sender, now, PurchaseArtwork tokenId msg_value) s = s)
   \<and> (royaltyPercentage (artworks s tokenId) = 100 \<and>
      owners s tokenId \<noteq> artist (artworks s tokenId) \<and>
      unat msg_value * unat (platformFee s) < 1000 \<and>
      \<not> entered s \<and> token_exists s tokenId \<and> forSale (artworks s tokenId) \<and>
      price (artworks s tokenId) \<le> msg_value \<and> unat msg_value * 100 < 2 ^ 256 \<and>
      accepts (artist (artworks s tokenId)) \<and> sender \<noteq> 0 \<and> accepts (owner s) \<and>
      accepts (owners s tokenId)
    \<longrightarrow> checked_sub msg_value ((msg_value * platformFee s) div 1000) = Inr msg_value
      \<and> checked_sub msg_value ((msg_value * 100) div 100) = Inr 0
      \<and> (case purchaseArtwork accepts sender msg_value tokenId s of
            Inl e \<Rightarrow> False
          | Inr (s', u) \<Rightarrow>
              payments (effects_of s s') =
                [(artist (artworks s tokenId), msg_value), (owner s, 0),
                 (owners s tokenId, 0)]))
   \<and> (0 < length title' \<and> 0 < price' \<and> isActive (galleries s galleryId') \<and>
      \<not> entered s \<and> sender \<noteq> 0 \<and> \<not> token_exists s (tokenIds s + 1)
    \<longrightarrow> (case createArtwork sender now title' tokenURI price' galleryId' 100 s of
          Inl e \<Rightarrow> False
        | Inr (s', newTokenId) \<Rightarrow> royaltyPercentage (artworks s' newTokenId) = 100))"
proof (intro conjI impI)
  assume a: "royaltyPercentage (artworks s tokenId) = 100 \<and>
    owners s tokenId \<noteq> artist (artworks s tokenId) \<and>
    1000 \<le> unat msg_value * unat (platformFee s)"
  then show e: "purchaseArtwork accepts sender msg_value tokenId s =
          Inl (if entered s then Revert ''ReentrancyGuard: reentrant call''
               else if \<not> token_exists s tokenId then Revert ''Artwork does not exist''
               else if \<not> forSale (artworks s tokenId) then Revert ''Artwork is not for sale''
               else if \<not> price (artworks s tokenId) \<le> msg_value
                 then Revert ''Insufficient payment''
               else if \<not> unat msg_value * unat (platformFee s) < 2 ^ 256 then Panic
               else if \<not> unat msg_value * 100 < 2 ^ 256 then Panic
               else if \<not> accepts (artist (artworks s tokenId)) then TransferFailed
               else if sender = 0 then Revert ''ERC721: transfer to the zero address''
               else if funds s < unat ((msg_value * platformFee s) div 1000)
                       \<or> \<not> accepts (owner s)
                 then TransferFailed
               else Panic)"
    using purchase_full_royalty_error [of s tokenId msg_value accepts sender] by blast
  then show i: "isl (purchaseArtwork accepts sender msg_value tokenId s)"
    by (simp only: sum.disc)
  then show "execute accepts (sender, now, PurchaseArtwork tokenId msg_value) s = s"
    by (cases "purchaseArtwork accepts sender msg_value tokenId s") simp_all
next
  assume b: "royaltyPercentage (artworks s tokenId) = 100 \<and>
      owners s tokenId \<noteq> artist (artworks s tokenId) \<and>
      unat msg_value * unat (platformFee s) < 1000 \<and>
      \<not> entered s \<and> token_exists s tokenId \<and> forSale (artworks s tokenId) \<and>
      price (artworks s tokenId) \<le> msg_value \<and> unat msg_value * 100 < 2 ^ 256 \<and>
      accepts (artist (artworks s tokenId)) \<and> sender \<noteq> 0 \<and> accepts (owner s) \<and>
      accepts (owners s tokenId)"
  then show "checked_sub msg_value ((msg_value * platformFee s) div 1000) = Inr msg_value"
    "checked_sub msg_value ((msg_value * 100) div 100) = Inr 0"
    "case purchaseArtwork accepts sender msg_value tokenId s of
            Inl e \<Rightarrow> False
          | Inr (s', u) \<Rightarrow>
              payments (effects_of s s') =
                [(artist (artworks s tokenId), msg_value), (owner s, 0),
                 (owners s tokenId, 0)]"
    using purchase_full_royalty_small [of s tokenId msg_value accepts sender] by blast+
next
  assume "0 < length title' \<and> 0 < price' \<and> isActive (galleries s galleryId') \<and>
      \<not> entered s \<and> sender \<noteq> 0 \<and> \<not> token_exists s (tokenIds s + 1)"
  then obtain s' where c: "createArtwork sender now title' tokenURI price' galleryId' 100 s
      = Inr (s', tokenIds s + 1)"
    using createArtwork_succeeds [of title' price' s galleryId' 100 sender now tokenURI] by auto
  show "case createArtwork sender now title' tokenURI price' galleryId' 100 s of
          Inl e \<Rightarrow> False
        | Inr (s', newTokenId) \<Rightarrow> royaltyPercentage (artworks s' newTokenId) = 100"
    using createArtwork_Inr(7) [OF c] by (simp add: c)
qed

text \<open>
  Witness for C10: at royalty 100 a payment of 1000 wei has the fee 25; the
  purchase fails at the fee transfer when the contract holds nothing else, and
  at the subtraction when it holds 25 wei more; a payment of 1 wei succeeds;
  and an artwork with royalty 100 is created in gallery \<open>g1\<close>.
\<close>

theorem full_royalty_purchase_fails_witness:
  "royaltyPercentage (artworks (demo 3 1000 100) 1) = 100 \<and>
   owners (demo 3 1000 100) 1 \<noteq> artist (artworks (demo 3 1000 100) 1) \<and>
   1000 \<le> unat (1000 :: uint256) * unat (platformFee (demo 3 1000 100)) \<and>
   purchaseArtwork (\<lambda>_. True) 4 1000 1 (demo 3 1000 100) = Inl TransferFailed \<and>
   isl (purchaseArtwork (\<lambda>_. True) 4 1000 1 (demo 3 1000 100)) \<and>
   execute (\<lambda>_. True) (4, 0, PurchaseArtwork 1 1000) (demo 3 1000 100) = demo 3 1000 100 \<and>
   purchaseArtwork (\<lambda>_. True) 4 1000 1 ((demo 3 1000 100)\<lparr>funds := 25\<rparr>) = Inl Panic \<and>
   unat (1 :: uint256) * unat (platformFee (demo 3 1 100)) < 1000 \<and>
   checked_sub 1 ((1 * platformFee (demo 3 1 100)) div 1000) = Inr 1 \<and>
   checked_sub 1 ((1 * 100) div 100) = Inr 0 \<and>
   (case purchaseArtwork (\<lambda>_. True) 4 1 1 (demo 3 1 100) of
      Inl e \<Rightarrow> False
    | Inr (s', u) \<Rightarrow> payments (effects_of (demo 3 1 100) s') = [(2, 1), (1, 0), (3, 0)]) \<and>
   0 < length ''B'' \<and> (0 :: uint256) < 5 \<and> isActive (galleries (demo 3 1000 100) ''g1'') \<and>
   \<not> entered (demo 3 1000 100) \<and> (2 :: address) \<noteq> 0 \<and>
   \<not> token_exists (demo 3 1000 100) (tokenIds (demo 3 1000 100) + 1) \<and>
   (case createArtwork 2 0 ''B'' ''ipfs'' 5 ''g1'' 100 (demo 3 1000 100) of
      Inl e \<Rightarrow> False
    | Inr (s', newTokenId) \<Rightarrow> royaltyPercentage (artworks s' newTokenId) = 100)"
proof -
  have a: "royaltyPercentage (artworks (demo 3 1000 100) 1) = 100 \<and>
   owners (demo 3 1000 100) 1 \<noteq> artist (artworks (demo 3 1000 100) 1) \<and>
   1000 \<le> unat (1000 :: uint256) * unat (platformFee (demo 3 1000 100))"
    by (simp add: demo_def)
  from full_royalty_purchase_fails [where s = "demo 3 1000 100" and tokenId = 1
      and msg_value = 1000 and accepts = "\<lambda>_. True" and sender = 4 and now = 0]
  have b: "purchaseArtwork (\<lambda>_. True) 4 1000 1 (demo 3 1000 100) = Inl TransferFailed \<and>
   isl (purchaseArtwork (\<lambda>_. True) 4 1000 1 (demo 3 1000 100)) \<and>
   execute (\<lambda>_. True) (4, 0, PurchaseArtwork 1 1000) (demo 3 1000 100) = demo 3 1000 100"
    by (simp add: demo_def token_exists_def)
  from full_royalty_purchase_fails [where s = "(demo 3 1000 100)\<lparr>funds := 25\<rparr>"
      and tokenId = 1 and msg_value = 1000 and accepts = "\<lambda>_. True" and sender = 4]
  have c: "purchaseArtwork (\<lambda>_. True) 4 1000 1 ((demo 3 1000 100)\<lparr>funds := 25\<rparr>) = Inl Panic"
    by (simp add: demo_def token_exists_def)
  have dh: "royaltyPercentage (artworks (demo 3 1 100) 1) = 100 \<and>
      owners (demo 3 1 100) 1 \<noteq> artist (artworks (demo 3 1 100) 1) \<and>
      unat (1 :: uint256) * unat (platformFee (demo 3 1 100)) < 1000 \<and>
      \<not> entered (demo 3 1 100) \<and> token_exists (demo 3 1 100) 1 \<and>
      forSale (artworks (demo 3 1 100) 1) \<and>
      price (artworks (demo 3 1 100) 1) \<le> 1 \<and> unat (1 :: uint256) * 100 < 2 ^ 256 \<and>
      (4 :: address) \<noteq> 0"
    by (simp add: demo_def token_exists_def)
  have dv: "artist (artworks (demo 3 1 100) 1) = 2" "owner (demo 3 1 100) = 1"
    "owners (demo 3 1 100) 1 = 3"
    by (simp_all add: demo_def)
  from full_royalty_purchase_fails [where s = "demo 3 1 100" and tokenId = 1
      and msg_value = 1 and accepts = "\<lambda>_. True" and sender = 4]
  have d: "unat (1 :: uint256) * unat (platformFee (demo 3 1 100)) < 1000 \<and>
   checked_sub 1 ((1 * platformFee (demo 3 1 100)) div 1000) = Inr 1 \<and>
   checked_sub 1 ((1 * 100) div 100) = Inr 0 \<and>
   (case purchaseArtwork (\<lambda>_. True) 4 1 1 (demo 3 1 100) of
      Inl e \<Rightarrow> False
    | Inr (s', u) \<Rightarrow> payments (effects_of (demo 3 1 100) s') = [(2, 1), (1, 0), (3, 0)])"
    using dh dv by (auto split: sum.splits)
  have e: "0 < length ''B'' \<and> (0 :: uint256) < 5 \<and> isActive (galleries (demo 3 1000 100) ''g1'') \<and>
   \<not> entered (demo 3 1000 100) \<and> (2 :: address) \<noteq> 0 \<and>
   \<not> token_exists (demo 3 1000 100) (tokenIds (demo 3 1000 100) + 1)"
    by (simp add: demo_def token_exists_def)
  from full_royalty_purchase_fails [where s = "demo 3 1000 100" and title' = "''B''"
      and price' = 5 and galleryId' = "''g1''" and sender = 2 and now = 0 and tokenURI = "''ipfs''"]
  have f: "case createArtwork 2 0 ''B'' ''ipfs'' 5 ''g1'' 100 (demo 3 1000 100) of
      Inl e \<Rightarrow> False
    | Inr (s', newTokenId) \<Rightarrow> royaltyPercentage (artworks s' newTokenId) = 100"
    using e by blast
  from a b c d e f show ?thesis by blast
qed

subsection \<open>C3: no call updates a price\<close>

text \<open>
  Claim C3 describes an operation that the contract does not have: among its
  functions there is none that sets a price or relists an artwork (the test
  suite calls \<open>updateArtworkPrice\<close>, and the event \<open>PriceUpdated\<close> is declared but
  never emitted). What the code does instead: whichever call of the contract
  returns, the price of every existing token is what it was, a token that was
  not for sale is still not for sale, and no \<open>PriceUpdated\<close> event was emitted.
\<close>

theorem no_call_updates_price:
  assumes "step accepts sender now c s = Inr s'" and "token_exists s tokenId"
  shows "price (artworks s' tokenId) = price (artworks s tokenId)
       \<and> (forSale (artworks s' tokenId) \<longrightarrow> forSale (artworks s tokenId))
       \<and> list_all (\<lambda>e. \<not> is_price_update e) (effects_of s s')"
proof (cases c)
  case (CreateArtwork x1 x2 x3 x4 x5)
  with assms(1) obtain i where "createArtwork sender now x1 x2 x3 x4 x5 s = Inr (s', i)"
    by (auto simp: map_sum_fst_Inr)
  from createArtwork_Inr(4,7,12) [OF this] assms(2) show ?thesis
    by (auto simp: effects_of_def)
next
  case (PurchaseArtwork x1 x2)
  with assms(1) obtain u where "purchaseArtwork accepts sender x2 x1 s = Inr (s', u)"
    by (auto simp: map_sum_fst_Inr)
  from purchaseArtwork_Inr(10,11) [OF this] show ?thesis
    by (auto simp: effects_of_def)
next
  case (CreateGallery x1 x2 x3)
  with assms(1) obtain u where "createGallery sender now x1 x2 x3 s = Inr (s', u)"
    by (auto simp: map_sum_fst_Inr)
  from createGallery_Inr(3,7) [OF this] show ?thesis
    by (simp add: effects_of_def)
next
  case (AddReview x1 x2 x3)
  with assms(1) obtain u where "addReview sender now x1 x2 x3 s = Inr (s', u)"
    by (auto simp: map_sum_fst_Inr)
  from addReview_Inr(7,11) [OF this] show ?thesis
    by (simp add: effects_of_def)
next
  case (UpdatePlatformFee x1)
  with assms(1) obtain u where "updatePlatformFee sender x1 s = Inr (s', u)"
    by (auto simp: map_sum_fst_Inr)
  from updatePlatformFee_Inr(3,6) [OF this] show ?thesis
    by (simp add: effects_of_def)
qed

text \<open>Witness for C3: the sale of token 1 keeps its price and leaves it not for sale.\<close>

theorem no_call_updates_price_witness:
  "step (\<lambda>_. True) 3 0 (PurchaseArtwork 1 1000) (demo 2 1000 10) = Inr demo_sold \<and>
   token_exists (demo 2 1000 10) 1 \<and>
   price (artworks demo_sold 1) = 1000 \<and> \<not> forSale (artworks demo_sold 1) \<and>
   list_all (\<lambda>e. \<not> is_price_update e) (effects_of (demo 2 1000 10) demo_sold)"
proof -
  have a: "step (\<lambda>_. True) 3 0 (PurchaseArtwork 1 1000) (demo 2 1000 10) = Inr demo_sold"
    by (simp add: demo_purchase_primary)
  have b: "token_exists (demo 2 1000 10) 1" by (simp add: demo_def token_exists_def)
  have c: "price (artworks (demo 2 1000 10) 1) = 1000" by (simp add: demo_def)
  have d: "\<not> forSale (artworks demo_sold 1)" by (simp add: demo_sold_def)
  from no_call_updates_price [OF a b] a b c d show ?thesis by simp
qed

subsection \<open>C8: token ids\<close>

text \<open>
  Claim C8. In every run of transactions, from any state, the ids that the
  successful \<open>createArtwork\<close> calls return are pairwise different and none of
  them was a token before the run: an id is never reused. As long as the
  \<open>uint256\<close> counter \<open>_tokenIds\<close> does not reach its last value (the run is
  shorter than what is left of the counter's range), they are strictly
  increasing and all above the counter's value at the start; and the counter
  ends at its start value plus the number of ids issued, so a creation that
  reverts, and any other call, uses up no id. From \<open>constructor\<close> the counter
  starts at 0.
\<close>

theorem issued_ids_increase:
  "distinct (issued accepts txs s)
   \<and> list_all (\<lambda>i. \<not> token_exists s i) (issued accepts txs s)
   \<and> (unat (tokenIds s) + length txs < 2 ^ 256 \<longrightarrow>
        sorted_wrt (<) (issued accepts txs s)
      \<and> list_all (\<lambda>i. tokenIds s < i) (issued accepts txs s)
      \<and> unat (tokenIds (run accepts txs s))
          = unat (tokenIds s) + length (issued accepts txs s))"
  using issued_fresh [of accepts txs s] issued_sorted [of s txs accepts] by blast

text \<open>Witness for C8: the run \<open>demo_txs\<close> after deployment issues the ids 1 and 2.\<close>

theorem issued_ids_increase_witness:
  "unat (tokenIds (constructor 1)) + length demo_txs < 2 ^ 256 \<and>
   issued (\<lambda>_. True) demo_txs (constructor 1) = [1, 2] \<and>
   distinct (issued (\<lambda>_. True) demo_txs (constructor 1)) \<and>
   sorted_wrt (<) (issued (\<lambda>_. True) demo_txs (constructor 1)) \<and>
   list_all (\<lambda>i. 0 < i) (issued (\<lambda>_. True) demo_txs (constructor 1)) \<and>
   unat (tokenIds (run (\<lambda>_. True) demo_txs (constructor 1))) = 2"
proof -
  have h: "unat (tokenIds (constructor 1)) + length demo_txs < 2 ^ 256"
    by (simp add: constructor_def demo_txs_def)
  have z: "tokenIds (constructor 1) = 0" by (simp add: constructor_def)
  from issued_ids_increase [of "\<lambda>_. True" demo_txs "constructor 1"] h show ?thesis
    unfolding z by (simp add: demo_txs_issued)
qed

end
